theory Spec2Isabelle
  imports Main
begin

section \<open>Data model\<close>

text \<open>
  Shallow embedding of \<^verbatim>\<open>tsl/src/bgw_policy/job.c\<close> and
  \<^verbatim>\<open>tsl/src/bgw_policy/job_api.c\<close>. The C integer types are only compared and
  copied by these two files (no arithmetic is done on them here), so they are
  modelled by \<open>int\<close>; object identifiers are natural numbers.
\<close>

type_synonym int32 = int
type_synonym int64 = int
type_synonym Oid = nat
type_synonym Datum = int
type_synonym TimestampTz = int
type_synonym Name = string

definition InvalidOid :: Oid where
  "InvalidOid = 0"

definition INT2OID :: Oid where "INT2OID = 21"
definition INT4OID :: Oid where "INT4OID = 23"
definition INT8OID :: Oid where "INT8OID = 20"

definition IS_INTEGER_TYPE :: "Oid \<Rightarrow> bool" where
  "IS_INTEGER_TYPE t = (t = INT2OID \<or> t = INT4OID \<or> t = INT8OID)"

text \<open>The timestamp \<open>-infinity\<close>, used by the job statistics as "not set".\<close>

definition DT_NOBEGIN :: TimestampTz where
  "DT_NOBEGIN = - (2 ^ 63)"

text \<open>
  The macro \<^verbatim>\<open>INVALID_CHUNK_ID\<close> and the macro \<^verbatim>\<open>INTERNAL_SCHEMA_NAME\<close> are
  declared outside the two files; no theorem below depends on their values.
\<close>

definition INVALID_CHUNK_ID :: int32 where
  "INVALID_CHUNK_ID = 0"

definition INTERNAL_SCHEMA_NAME :: string where
  "INTERNAL_SCHEMA_NAME = ''_timescaledb_internal''"

definition REORDER_SKIP_RECENT_DIM_SLICES_N :: int where
  "REORDER_SKIP_RECENT_DIM_SLICES_N = 3"

text \<open>PostgreSQL's \<^verbatim>\<open>Interval\<close>: microseconds, days and months.\<close>

record Interval =
  time :: int64
  day :: int32
  month :: int32

datatype JsonbValue = JNum int | JStr string | JInterval Interval

text \<open>A config document: field names with their values.\<close>

type_synonym Jsonb = "(string \<times> JsonbValue) list"

subsection \<open>Errors and messages\<close>

datatype errcode =
    ERRCODE_INVALID_PARAMETER_VALUE
  | ERRCODE_UNDEFINED_OBJECT
  | ERRCODE_UNDEFINED_FUNCTION
  | ERRCODE_UNDEFINED_SCHEMA
  | ERRCODE_INSUFFICIENT_PRIVILEGE
  | ERRCODE_FEATURE_NOT_SUPPORTED
  | ERRCODE_READ_ONLY_SQL_TRANSACTION
  | ERRCODE_INTERNAL_ERROR

text \<open>A printf-style message: the format string and its arguments.\<close>

datatype fmtarg = S string | D int

type_synonym fmt = "string \<times> fmtarg list"

text \<open>
  \<open>Ereport code msg detail hint\<close> is an \<^verbatim>\<open>ereport(ERROR, ...)\<close> (an
  \<^verbatim>\<open>elog(ERROR, ...)\<close> has the code \<open>ERRCODE_INTERNAL_ERROR\<close>); \<open>Segfault\<close> is
  the dereference of a NULL pointer.
\<close>

datatype error =
    Ereport errcode fmt "fmt option" "fmt option"
  | Segfault

datatype elevel = DEBUG1 | LOG | NOTICE

subsection \<open>Catalog rows\<close>

record BgwJob =
  fd_id :: int32
  application_name :: Name
  job_type :: Name
  schedule_interval :: Interval
  max_runtime :: Interval
  max_retries :: int32
  retry_period :: Interval
  proc_schema :: Name
  proc_name :: Name
  owner :: Name
  scheduled :: bool
  fd_hypertable_id :: int32
  config :: "Jsonb option"

record BgwJobStat =
  last_start :: TimestampTz
  last_finish :: TimestampTz
  next_start :: TimestampTz

datatype DimensionType = DIMENSION_TYPE_OPEN | DIMENSION_TYPE_CLOSED

record Dimension =
  dim_id :: int32
  dim_type :: DimensionType
  partition_type :: Oid
  integer_now_func :: Oid

record Hypertable =
  ht_id :: int32
  schema_name :: Name
  table_name :: Name
  main_table_relid :: Oid
  space :: "Dimension list"

record ContinuousAgg =
  mat_hypertable_id :: int32
  raw_hypertable_id :: int32
  user_view_schema :: Name
  user_view_name :: Name

record Chunk =
  chunk_id :: int32
  chunk_schema_name :: Name
  chunk_table_name :: Name
  table_id :: Oid
  slice_dimension_id :: int32
  range_start :: int64
  range_end :: int64
  compressed :: bool
  dropped :: bool

datatype prokind = PROKIND_FUNCTION | PROKIND_PROCEDURE | PROKIND_AGGREGATE | PROKIND_WINDOW

record PgProc =
  proc_oid :: Oid
  pronamespace :: Name
  proname :: Name
  proc_prokind :: prokind

text \<open>The calls made to PostgreSQL's transaction manager, in order.\<close>

datatype XactCall =
    XStartTransactionCommand
  | XPushActiveSnapshot
  | XPopActiveSnapshot
  | XCommitTransactionCommand

text \<open>What the storage layer was asked to do, in order.\<close>

datatype StorageAction =
    DropChunks Oid Datum Oid
  | ReorderChunk Oid Oid
  | CompressChunk int32
  | RefreshCagg int32 int64 int64

subsection \<open>The database session\<close>

text \<open>
  \<open>Db\<close> is what the catalog and storage layer shows to a policy: hypertables,
  continuous aggregates, chunks, the reorder statistics, PostgreSQL's own
  catalogs, the clocks, and the actions requested from the storage layer.
\<close>

record Db =
  hypertables :: "Hypertable list"
  continuous_aggs :: "ContinuousAgg list"
  chunks :: "Chunk list"
  bgw_policy_chunk_stats :: "(int32 \<times> int32 \<times> TimestampTz) list"
  pg_namespace :: "Name \<rightharpoonup> Oid"
  pg_class :: "(Oid \<times> Name) \<rightharpoonup> Oid"
  pg_index :: "Oid \<rightharpoonup> Oid"
  pg_proc :: "PgProc list"
  xact_start_timestamp :: TimestampTz
  timer_timestamp :: TimestampTz
  storage_actions :: "StorageAction list"

text \<open>
  \<open>World\<close> is the ambient state the two files read and write: the database,
  the transaction manager (whether a transaction is open, how many snapshots
  are on the active-snapshot stack), the job table and the job statistics, the
  sequence of job ids, the current user and the server log.
\<close>

record World =
  db :: Db
  xact_open :: bool
  active_snapshots :: nat
  xact_read_only :: bool
  xact_calls :: "XactCall list"
  current_user :: Name
  bgw_job :: "int32 \<rightharpoonup> BgwJob"
  bgw_job_id_seq :: int32
  bgw_job_stat :: "int32 \<rightharpoonup> BgwJobStat"
  server_log :: "(elevel \<times> fmt) list"

subsection \<open>Computations that may raise\<close>

text \<open>
  A C function that reads and writes the session and may leave through
  \<^verbatim>\<open>ereport(ERROR)\<close> is a function from the session to a result and the session
  as it is at the return or at the raise. (PostgreSQL rolls the catalog back
  when the error reaches the top level; what was written before the raise stays
  visible here, so that "nothing was written" is a statement about the code.)
\<close>

type_synonym 'a pg = "World \<Rightarrow> (error + 'a) \<times> World"

definition pg_return :: "'a \<Rightarrow> 'a pg" where
  "pg_return x = (\<lambda>w. (Inr x, w))"

definition pg_raise :: "error \<Rightarrow> 'a pg" where
  "pg_raise e = (\<lambda>w. (Inl e, w))"

definition pg_bind :: "'a pg \<Rightarrow> ('a \<Rightarrow> 'b pg) \<Rightarrow> 'b pg" where
  "pg_bind m f = (\<lambda>w. case m w of (Inl e, w') \<Rightarrow> (Inl e, w') | (Inr x, w') \<Rightarrow> f x w')"

definition pg_then :: "'a pg \<Rightarrow> 'b pg \<Rightarrow> 'b pg" where
  "pg_then m n = pg_bind m (\<lambda>_. n)"

text \<open>A read of the database that may raise and writes nothing.\<close>

definition pg_read :: "(Db \<Rightarrow> error + 'a) \<Rightarrow> 'a pg" where
  "pg_read r = (\<lambda>w. (r (db w), w))"

definition pg_when :: "bool \<Rightarrow> unit pg \<Rightarrow> unit pg" where
  "pg_when b m = (if b then m else pg_return ())"

definition elog :: "elevel \<Rightarrow> fmt \<Rightarrow> unit pg" where
  "elog lvl msg = (\<lambda>w. (Inr (), w\<lparr>server_log := server_log w @ [(lvl, msg)]\<rparr>))"

definition elog_ERROR :: "fmt \<Rightarrow> error" where
  "elog_ERROR msg = Ereport ERRCODE_INTERNAL_ERROR msg None None"

definition pg_get :: "(World \<Rightarrow> 'a) \<Rightarrow> 'a pg" where
  "pg_get f = (\<lambda>w. (Inr (f w), w))"

section \<open>PostgreSQL's transaction manager\<close>

text \<open>
  The transaction and snapshot calls of \<^verbatim>\<open>access/xact.h\<close> and
  \<^verbatim>\<open>utils/snapmgr.h\<close>, reduced to what \<^verbatim>\<open>job_execute\<close> observes: whether a
  transaction is open and how deep the active-snapshot stack is. Every call is
  recorded in \<open>xact_calls\<close>. Popping an empty stack dereferences NULL; committing
  with no transaction open is an error of the transaction manager; a commit
  discards the snapshots that are still active.
\<close>

definition IsTransactionOrTransactionBlock :: "World \<Rightarrow> bool" where
  "IsTransactionOrTransactionBlock w = xact_open w"

definition ActiveSnapshotSet :: "World \<Rightarrow> bool" where
  "ActiveSnapshotSet w = (0 < active_snapshots w)"

definition StartTransactionCommand :: "unit pg" where
  "StartTransactionCommand = (\<lambda>w.
     (Inr (), w\<lparr>xact_open := True,
                xact_calls := xact_calls w @ [XStartTransactionCommand]\<rparr>))"

definition CommitTransactionCommand :: "unit pg" where
  "CommitTransactionCommand = (\<lambda>w.
     if xact_open w
     then (Inr (), w\<lparr>xact_open := False, active_snapshots := 0,
                     xact_calls := xact_calls w @ [XCommitTransactionCommand]\<rparr>)
     else (Inl (elog_ERROR (''CommitTransactionCommand: unexpected state'', [])),
           w\<lparr>xact_calls := xact_calls w @ [XCommitTransactionCommand]\<rparr>))"

definition PushActiveSnapshot :: "unit pg" where
  "PushActiveSnapshot = (\<lambda>w.
     (Inr (), w\<lparr>active_snapshots := Suc (active_snapshots w),
                xact_calls := xact_calls w @ [XPushActiveSnapshot]\<rparr>))"

definition PopActiveSnapshot :: "unit pg" where
  "PopActiveSnapshot = (\<lambda>w.
     if active_snapshots w = 0
     then (Inl Segfault, w\<lparr>xact_calls := xact_calls w @ [XPopActiveSnapshot]\<rparr>)
     else (Inr (), w\<lparr>active_snapshots := active_snapshots w - 1,
                     xact_calls := xact_calls w @ [XPopActiveSnapshot]\<rparr>))"

section \<open>Collaborators\<close>

text \<open>
  Functions that the two files call and that are declared elsewhere, whose
  results the code only passes on: the field getters of the config documents,
  time arithmetic and formatting, the dimension-slice queries of the reorder
  policy, privilege checks, the body of the job's callable and the refresh of
  a continuous aggregate. They are parameters of the model: every theorem
  holds for all of them.
\<close>

datatype StrategyNumber =
    InvalidStrategy
  | BTLessStrategyNumber
  | BTLessEqualStrategyNumber
  | BTEqualStrategyNumber
  | BTGreaterEqualStrategyNumber
  | BTGreaterStrategyNumber

record Ext =
  ExecEvalExpr :: "Oid \<Rightarrow> int32 \<Rightarrow> Jsonb option \<Rightarrow> unit pg"
  ExecuteCallStmt :: "Oid \<Rightarrow> int32 \<Rightarrow> Jsonb option \<Rightarrow> unit pg"
  policy_reorder_get_hypertable_id :: "Jsonb \<Rightarrow> error + int32"
  policy_reorder_get_index_name :: "Jsonb \<Rightarrow> error + string"
  policy_retention_get_hypertable_id :: "Jsonb \<Rightarrow> error + int32"
  policy_retention_get_drop_after_int :: "Jsonb \<Rightarrow> error + int64"
  policy_retention_get_drop_after_interval :: "Jsonb \<Rightarrow> error + Interval"
  policy_compression_get_hypertable_id :: "Jsonb \<Rightarrow> error + int32"
  policy_compression_get_compress_after_int :: "Jsonb \<Rightarrow> error + int64"
  policy_compression_get_compress_after_interval :: "Jsonb \<Rightarrow> error + Interval"
  policy_continuous_aggregate_get_mat_hypertable_id :: "Jsonb \<Rightarrow> error + int32"
  policy_refresh_cagg_get_refresh_start :: "Db \<Rightarrow> Dimension \<Rightarrow> Jsonb \<Rightarrow> error + int64"
  policy_refresh_cagg_get_refresh_end :: "Db \<Rightarrow> Dimension \<Rightarrow> Jsonb \<Rightarrow> error + int64"
  subtract_integer_from_now :: "Db \<Rightarrow> int64 \<Rightarrow> Oid \<Rightarrow> Oid \<Rightarrow> error + int64"
  subtract_interval_from_now :: "Db \<Rightarrow> Interval \<Rightarrow> Oid \<Rightarrow> error + Datum"
  ts_time_value_to_internal :: "Datum \<Rightarrow> Oid \<Rightarrow> int64"
  ts_internal_to_time_string :: "int64 \<Rightarrow> Oid \<Rightarrow> string"
  timestamptz_pl_interval :: "TimestampTz \<Rightarrow> Interval \<Rightarrow> error + TimestampTz"
  ts_continuous_agg_find_integer_now_func_by_materialization_id ::
    "Db \<Rightarrow> int32 \<Rightarrow> Dimension option"
  ts_dimension_slice_nth_latest_slice :: "Db \<Rightarrow> int32 \<Rightarrow> int \<Rightarrow> (int64 \<times> int64) option"
  ts_dimension_slice_oldest_valid_chunk_for_reorder ::
    "Db \<Rightarrow> int32 \<Rightarrow> int32 \<Rightarrow> StrategyNumber \<Rightarrow> int64 \<Rightarrow> StrategyNumber \<Rightarrow> int64 \<Rightarrow> int"
  continuous_agg_refresh_internal :: "ContinuousAgg option \<Rightarrow> Oid \<Rightarrow> int64 \<Rightarrow> int64 \<Rightarrow> unit pg"
  pg_proc_aclcheck :: "Db \<Rightarrow> Oid \<Rightarrow> Name \<Rightarrow> bool"
  ts_bgw_job_validate_job_owner :: "Db \<Rightarrow> Name \<Rightarrow> error + unit"
  ts_bgw_job_permission_check :: "Db \<Rightarrow> Name \<Rightarrow> BgwJob \<Rightarrow> error + unit"

section \<open>The job runtime executor (\<^verbatim>\<open>job.c\<close>)\<close>

definition LookupFuncName :: "Name \<Rightarrow> Name \<Rightarrow> Db \<Rightarrow> error + Oid" where
  \<comment> \<open>PostgreSQL's lookup of a function by qualified name and the argument types
      \<open>(int4, jsonb)\<close>, with \<open>missing_ok = false\<close>.\<close>
  "LookupFuncName schema nm d =
     (case find (\<lambda>p. pronamespace p = schema \<and> proname p = nm) (pg_proc d) of
        None \<Rightarrow> Inl (Ereport ERRCODE_UNDEFINED_FUNCTION
                  (''function %s.%s(integer, jsonb) does not exist'', [S schema, S nm]) None None)
      | Some p \<Rightarrow> Inr (proc_oid p))"

definition get_func_prokind :: "Oid \<Rightarrow> Db \<Rightarrow> error + prokind" where
  "get_func_prokind proc d =
     (case find (\<lambda>p. proc_oid p = proc) (pg_proc d) of
        None \<Rightarrow> Inl (elog_ERROR (''cache lookup failed for function %u'', [D (int proc)]))
      | Some p \<Rightarrow> Inr (proc_prokind p))"

definition job_execute_function :: "Ext \<Rightarrow> Oid \<Rightarrow> int32 \<Rightarrow> Jsonb option \<Rightarrow> unit pg" where
  "job_execute_function ext proc arg1 arg2 = ExecEvalExpr ext proc arg1 arg2"

definition job_execute_procedure :: "Ext \<Rightarrow> Oid \<Rightarrow> int32 \<Rightarrow> Jsonb option \<Rightarrow> unit pg" where
  "job_execute_procedure ext proc arg1 arg2 = ExecuteCallStmt ext proc arg1 arg2"

definition job_execute :: "Ext \<Rightarrow> BgwJob \<Rightarrow> bool pg" where
  "job_execute ext job =
     pg_bind (pg_get IsTransactionOrTransactionBlock) (\<lambda>in_xact.
     let transaction_started = \<not> in_xact in
     pg_bind (pg_when transaction_started StartTransactionCommand) (\<lambda>_.
     pg_bind (pg_get ActiveSnapshotSet) (\<lambda>snapshot_set.
     let pushed_snapshot = \<not> snapshot_set in
     pg_bind (pg_when pushed_snapshot PushActiveSnapshot) (\<lambda>_.
     pg_bind (pg_read (LookupFuncName (proc_schema job) (proc_name job))) (\<lambda>proc.
     pg_bind (pg_read (get_func_prokind proc)) (\<lambda>prokind.
     pg_bind
       (case prokind of
          PROKIND_FUNCTION \<Rightarrow> job_execute_function ext proc (fd_id job) (config job)
        | PROKIND_PROCEDURE \<Rightarrow> job_execute_procedure ext proc (fd_id job) (config job)
        | _ \<Rightarrow> pg_raise (Ereport ERRCODE_FEATURE_NOT_SUPPORTED
                  (''unsupported function type'', []) None None)) (\<lambda>_.
     pg_bind (pg_get ActiveSnapshotSet) (\<lambda>still_set.
     pg_bind (pg_when (pushed_snapshot \<and> still_set) PopActiveSnapshot) (\<lambda>_.
     pg_bind (pg_when transaction_started CommitTransactionCommand) (\<lambda>_.
     pg_return True))))))))))"


section \<open>Job statistics (\<^verbatim>\<open>bgw/job_stat.h\<close>)\<close>

definition ts_bgw_job_stat_find :: "int32 \<Rightarrow> World \<Rightarrow> BgwJobStat option" where
  \<comment> \<open>Modelled from the spec: the file \<^verbatim>\<open>bgw/job_stat.c\<close> is missing; JobStat is the
      per-job row of \<open>last_start\<close>, \<open>last_finish\<close>, \<open>next_start\<close>, looked up by job id.\<close>
  "ts_bgw_job_stat_find job_id w = bgw_job_stat w job_id"

definition ts_bgw_job_stat_set_next_start :: "int32 \<Rightarrow> TimestampTz \<Rightarrow> unit pg" where
  \<comment> \<open>Modelled from the spec: the file \<^verbatim>\<open>bgw/job_stat.c\<close> is missing; "set
      \<open>next_start\<close>" of the job's existing JobStat row.\<close>
  "ts_bgw_job_stat_set_next_start job_id ts = (\<lambda>w.
     case bgw_job_stat w job_id of
       None \<Rightarrow> (Inl (elog_ERROR (''unable to find job statistics for job %d'', [D job_id])), w)
     | Some stat \<Rightarrow>
         (Inr (), w\<lparr>bgw_job_stat := (bgw_job_stat w)(job_id \<mapsto> stat\<lparr>next_start := ts\<rparr>)\<rparr>))"

definition ts_bgw_job_stat_upsert_next_start :: "int32 \<Rightarrow> TimestampTz \<Rightarrow> unit pg" where
  \<comment> \<open>Modelled from the spec: the file \<^verbatim>\<open>bgw/job_stat.c\<close> is missing; JobStat is
      "created lazily on first scheduling event or explicit seed": the row is
      updated when it exists and created, with nothing else set, when it does not.\<close>
  "ts_bgw_job_stat_upsert_next_start job_id ts = (\<lambda>w.
     case bgw_job_stat w job_id of
       None \<Rightarrow>
         (Inr (), w\<lparr>bgw_job_stat := (bgw_job_stat w)(job_id \<mapsto>
            \<lparr>last_start = DT_NOBEGIN, last_finish = DT_NOBEGIN, next_start = ts\<rparr>)\<rparr>)
     | Some stat \<Rightarrow>
         (Inr (), w\<lparr>bgw_job_stat := (bgw_job_stat w)(job_id \<mapsto> stat\<lparr>next_start := ts\<rparr>)\<rparr>))"

definition ts_bgw_job_stat_update_next_start :: "int32 \<Rightarrow> TimestampTz \<Rightarrow> bool \<Rightarrow> bool pg" where
  \<comment> \<open>Modelled from the spec: the file \<^verbatim>\<open>bgw/job_stat.c\<close> is missing; the caller's
      comment in \<^verbatim>\<open>job_api.c\<close> says that \<open>allow_unset\<close> lets \<open>DT_NOBEGIN\<close> through,
      where it counts as "unset". Returns whether a row was found.\<close>
  "ts_bgw_job_stat_update_next_start job_id ts allow_unset = (\<lambda>w.
     if \<not> allow_unset \<and> ts = DT_NOBEGIN
     then (Inl (elog_ERROR (''cannot set next start to -infinity'', [])), w)
     else case bgw_job_stat w job_id of
       None \<Rightarrow> (Inr False, w)
     | Some stat \<Rightarrow>
         (Inr True, w\<lparr>bgw_job_stat := (bgw_job_stat w)(job_id \<mapsto> stat\<lparr>next_start := ts\<rparr>)\<rparr>))"

definition GetCurrentTransactionStartTimestamp :: "World \<Rightarrow> TimestampTz" where
  "GetCurrentTransactionStartTimestamp w = xact_start_timestamp (db w)"

section \<open>Catalog and storage layer\<close>

text \<open>A computation over the database that may raise: bind of the sum type.\<close>

definition ebind :: "error + 'a \<Rightarrow> ('a \<Rightarrow> error + 'b) \<Rightarrow> error + 'b" where
  "ebind m f = (case m of Inl e \<Rightarrow> Inl e | Inr x \<Rightarrow> f x)"

definition ts_hypertable_get_by_id :: "int32 \<Rightarrow> Db \<Rightarrow> Hypertable option" where
  \<comment> \<open>Modelled from the spec: \<^verbatim>\<open>hypertable.c\<close> is missing; "hypertable lookup by id",
      NULL when there is none.\<close>
  "ts_hypertable_get_by_id htid d = find (\<lambda>h. ht_id h = htid) (hypertables d)"

definition ts_hypertable_id_to_relid :: "int32 \<Rightarrow> Db \<Rightarrow> Oid" where
  \<comment> \<open>Modelled from the spec: \<^verbatim>\<open>hypertable.c\<close> is missing; the relation of the
      hypertable with this id, \<open>InvalidOid\<close> when there is none.\<close>
  "ts_hypertable_id_to_relid htid d =
     (case ts_hypertable_get_by_id htid d of
        None \<Rightarrow> InvalidOid
      | Some h \<Rightarrow> main_table_relid h)"

definition ts_hypertable_cache_get_cache_and_entry :: "Oid \<Rightarrow> Db \<Rightarrow> error + Hypertable" where
  \<comment> \<open>Modelled from the spec: \<^verbatim>\<open>hypertable_cache.c\<close> is missing; "resolve the
      hypertable id to a live handle, failing InvalidParameter if absent" (the
      flag \<^verbatim>\<open>CACHE_FLAG_NONE\<close> does not allow a missing entry). The cache pin
      and its release are not modelled.\<close>
  "ts_hypertable_cache_get_cache_and_entry relid d =
     (case find (\<lambda>h. relid \<noteq> InvalidOid \<and> main_table_relid h = relid) (hypertables d) of
        None \<Rightarrow> Inl (Ereport ERRCODE_INVALID_PARAMETER_VALUE
                  (''table is not a hypertable'', []) None None)
      | Some h \<Rightarrow> Inr h)"

definition hyperspace_get_open_dimension :: "Dimension list \<Rightarrow> nat \<Rightarrow> Dimension option" where
  \<comment> \<open>Modelled from the spec: \<^verbatim>\<open>dimension.c\<close> is missing; the n-th open ("primary",
      time-like) dimension of the hypertable, NULL when there is none.\<close>
  "hyperspace_get_open_dimension sp n =
     (let opens = filter (\<lambda>dim. dim_type dim = DIMENSION_TYPE_OPEN) sp
      in if n < length opens then Some (opens ! n) else None)"

definition ts_dimension_get_partition_type :: "Dimension \<Rightarrow> Oid" where
  "ts_dimension_get_partition_type dim = partition_type dim"

definition ts_get_integer_now_func :: "Dimension \<Rightarrow> Oid" where
  "ts_get_integer_now_func dim = integer_now_func dim"

definition ts_continuous_agg_find_by_mat_hypertable_id :: "int32 \<Rightarrow> Db \<Rightarrow> ContinuousAgg option" where
  \<comment> \<open>Modelled from the spec: \<^verbatim>\<open>continuous_agg.c\<close> is missing;
      "continuous-aggregate lookup-by-materialization-id".\<close>
  "ts_continuous_agg_find_by_mat_hypertable_id mat_id d =
     find (\<lambda>c. mat_hypertable_id c = mat_id) (continuous_aggs d)"

definition get_namespace_oid :: "Name \<Rightarrow> Db \<Rightarrow> error + Oid" where
  \<comment> \<open>PostgreSQL's lookup of a schema, with \<open>missing_ok = false\<close>.\<close>
  "get_namespace_oid nspname d =
     (case pg_namespace d nspname of
        None \<Rightarrow> Inl (Ereport ERRCODE_UNDEFINED_SCHEMA
                  (''schema \"%s\" does not exist'', [S nspname]) None None)
      | Some nsp \<Rightarrow> Inr nsp)"

definition get_relname_relid :: "Name \<Rightarrow> Oid \<Rightarrow> Db \<Rightarrow> Oid" where
  \<comment> \<open>PostgreSQL's lookup of a relation by name in a schema, \<open>InvalidOid\<close> when
      there is none.\<close>
  "get_relname_relid relname nsp d =
     (case pg_class d (nsp, relname) of None \<Rightarrow> InvalidOid | Some relid \<Rightarrow> relid)"

definition ts_chunk_get_by_id :: "int32 \<Rightarrow> bool \<Rightarrow> Db \<Rightarrow> error + Chunk option" where
  \<comment> \<open>Modelled from the spec: \<^verbatim>\<open>chunk.c\<close> is missing; "chunk lookup by id", which
      raises for a missing chunk when \<open>fail_if_not_found\<close> and returns NULL otherwise.\<close>
  "ts_chunk_get_by_id cid fail_if_not_found d =
     (case find (\<lambda>c. chunk_id c = cid) (chunks d) of
        None \<Rightarrow>
          if fail_if_not_found
          then Inl (Ereport ERRCODE_UNDEFINED_OBJECT (''chunk id %d not found'', [D cid]) None None)
          else Inr None
      | Some c \<Rightarrow> Inr (Some c))"

fun strategy_holds :: "StrategyNumber \<Rightarrow> int64 \<Rightarrow> int64 \<Rightarrow> bool" where
  "strategy_holds InvalidStrategy a b = True"
| "strategy_holds BTLessStrategyNumber a b = (a < b)"
| "strategy_holds BTLessEqualStrategyNumber a b = (a \<le> b)"
| "strategy_holds BTEqualStrategyNumber a b = (a = b)"
| "strategy_holds BTGreaterEqualStrategyNumber a b = (a \<ge> b)"
| "strategy_holds BTGreaterStrategyNumber a b = (a > b)"

definition ts_dimension_slice_get_chunkid_to_compress ::
  "int32 \<Rightarrow> StrategyNumber \<Rightarrow> int64 \<Rightarrow> StrategyNumber \<Rightarrow> int64 \<Rightarrow> Db \<Rightarrow> int32" where
  \<comment> \<open>Modelled from the spec: \<^verbatim>\<open>dimension_slice.c\<close> is missing; "any one chunk
      whose dimension range ends strictly before boundary (tie-break
      implementation-defined but must be deterministic for identical catalog
      state)": the first chunk of the catalog, on this dimension, whose slice
      passes the two range tests and that is neither compressed already nor
      dropped; \<open>INVALID_CHUNK_ID\<close> when there is none.\<close>
  "ts_dimension_slice_get_chunkid_to_compress dimension_id start_strategy start_value
       end_strategy end_value d =
     (case find (\<lambda>c. slice_dimension_id c = dimension_id
                    \<and> strategy_holds start_strategy (range_start c) start_value
                    \<and> strategy_holds end_strategy (range_end c) end_value
                    \<and> \<not> compressed c \<and> \<not> dropped c) (chunks d) of
        None \<Rightarrow> INVALID_CHUNK_ID
      | Some c \<Rightarrow> chunk_id c)"

definition tsl_compress_chunk_wrapper :: "Chunk \<Rightarrow> unit pg" where
  \<comment> \<open>Modelled from the spec: \<^verbatim>\<open>compression/compress_utils.c\<close> is missing;
      "compress the chosen chunk": the chunk is compressed from now on.\<close>
  "tsl_compress_chunk_wrapper c = (\<lambda>w.
     (Inr (), w\<lparr>db := (db w)\<lparr>
        chunks := map (\<lambda>c'. if chunk_id c' = chunk_id c then c'\<lparr>compressed := True\<rparr> else c')
                    (chunks (db w)),
        storage_actions := storage_actions (db w) @ [CompressChunk (chunk_id c)]\<rparr>\<rparr>))"

definition reorder_chunk :: "Oid \<Rightarrow> Oid \<Rightarrow> unit pg" where
  \<comment> \<open>Modelled from the spec: \<^verbatim>\<open>reorder.c\<close> is missing; "reorder that one chunk
      using the configured index": the request is recorded.\<close>
  "reorder_chunk chunk_relid index_relid = (\<lambda>w.
     (Inr (), w\<lparr>db := (db w)\<lparr>
        storage_actions := storage_actions (db w) @ [ReorderChunk chunk_relid index_relid]\<rparr>\<rparr>))"

definition chunk_invoke_drop_chunks :: "Oid \<Rightarrow> Datum \<Rightarrow> Oid \<Rightarrow> unit pg" where
  \<comment> \<open>Modelled from the spec: \<^verbatim>\<open>tsl/src/chunk.c\<close> is missing; "drop all data
      strictly before boundary" of the given relation: the request is recorded.\<close>
  "chunk_invoke_drop_chunks relid older_than older_than_type = (\<lambda>w.
     (Inr (), w\<lparr>db := (db w)\<lparr>
        storage_actions := storage_actions (db w) @ [DropChunks relid older_than older_than_type]\<rparr>\<rparr>))"

definition ts_bgw_policy_chunk_stats_record_job_run :: "int32 \<Rightarrow> int32 \<Rightarrow> TimestampTz \<Rightarrow> unit pg" where
  \<comment> \<open>Modelled from the spec: \<^verbatim>\<open>bgw_policy/chunk_stats.c\<close> is missing; "record the
      run" in the persistent statistics of reordered chunks.\<close>
  "ts_bgw_policy_chunk_stats_record_job_run job_id cid ts = (\<lambda>w.
     (Inr (), w\<lparr>db := (db w)\<lparr>
        bgw_policy_chunk_stats := bgw_policy_chunk_stats (db w) @ [(job_id, cid, ts)]\<rparr>\<rparr>))"

definition ts_timer_get_current_timestamp :: "World \<Rightarrow> TimestampTz" where
  "ts_timer_get_current_timestamp w = timer_timestamp (db w)"


section \<open>Fast restart (\<^verbatim>\<open>job.c\<close>)\<close>

definition enable_fast_restart :: "int32 \<Rightarrow> string \<Rightarrow> unit pg" where
  "enable_fast_restart job_id job_name = (\<lambda>w.
     pg_then
       (case ts_bgw_job_stat_find job_id w of
          Some job_stat \<Rightarrow> ts_bgw_job_stat_set_next_start job_id (last_start job_stat)
        | None \<Rightarrow>
            ts_bgw_job_stat_upsert_next_start job_id (GetCurrentTransactionStartTimestamp w))
       (elog DEBUG1 (''the %s job is scheduled to run again immediately'', [S job_name]))
       w)"

section \<open>Policies (\<^verbatim>\<open>job.c\<close>)\<close>

subsection \<open>Reorder\<close>

definition get_chunk_id_to_reorder :: "Ext \<Rightarrow> int32 \<Rightarrow> Hypertable \<Rightarrow> Db \<Rightarrow> error + int" where
  "get_chunk_id_to_reorder ext job_id ht d =
     (case hyperspace_get_open_dimension (space ht) 0 of
        None \<Rightarrow> Inl Segfault
      | Some time_dimension \<Rightarrow>
          (case ts_dimension_slice_nth_latest_slice ext d (dim_id time_dimension)
                  REORDER_SKIP_RECENT_DIM_SLICES_N of
             None \<Rightarrow> Inr (- 1)
           | Some nth_dimension \<Rightarrow>
               Inr (ts_dimension_slice_oldest_valid_chunk_for_reorder ext d job_id
                      (dim_id time_dimension) BTLessEqualStrategyNumber (fst nth_dimension)
                      InvalidStrategy (- 1))))"

text \<open>\<open>now() - window\<close> as a datum of the partitioning type.\<close>

definition get_window_boundary ::
  "Ext \<Rightarrow> Dimension \<Rightarrow> Jsonb \<Rightarrow> (Jsonb \<Rightarrow> error + int64) \<Rightarrow> (Jsonb \<Rightarrow> error + Interval)
     \<Rightarrow> Db \<Rightarrow> error + Datum" where
  "get_window_boundary ext dim cfg int_getter interval_getter d =
     (let partitioning_type = ts_dimension_get_partition_type dim
      in if IS_INTEGER_TYPE partitioning_type
         then ebind (int_getter cfg) (\<lambda>lag.
              let now_func = ts_get_integer_now_func dim
              in subtract_integer_from_now ext d lag partitioning_type now_func)
         else ebind (interval_getter cfg) (\<lambda>lag.
              subtract_interval_from_now ext d lag partitioning_type))"

definition get_chunk_to_compress :: "Ext \<Rightarrow> Dimension \<Rightarrow> Jsonb \<Rightarrow> Db \<Rightarrow> error + int32" where
  "get_chunk_to_compress ext dim cfg d =
     (let partitioning_type = ts_dimension_get_partition_type dim;
          end_strategy = BTLessStrategyNumber
      in ebind (get_window_boundary ext dim cfg
                  (policy_compression_get_compress_after_int ext)
                  (policy_compression_get_compress_after_interval ext) d) (\<lambda>boundary.
         Inr (ts_dimension_slice_get_chunkid_to_compress (dim_id dim)
                InvalidStrategy (- 1)
                end_strategy (ts_time_value_to_internal ext boundary partitioning_type) d)))"

definition check_valid_index :: "Hypertable \<Rightarrow> string \<Rightarrow> Db \<Rightarrow> error + unit" where
  "check_valid_index ht index_name d =
     ebind (get_namespace_oid (schema_name ht) d) (\<lambda>nsp.
     let index_oid = get_relname_relid index_name nsp d
     in case pg_index d index_oid of
          None \<Rightarrow> Inl (Ereport ERRCODE_INVALID_PARAMETER_VALUE
                    (''reorder index not found'', [])
                    (Some (''The index \"%s\" could not be found'', [S index_name])) None)
        | Some indrelid \<Rightarrow>
            if indrelid \<noteq> main_table_relid ht
            then Inl (Ereport ERRCODE_INVALID_PARAMETER_VALUE
                    (''invalid reorder index'', []) None
                    (Some (''The reorder index must by an index on hypertable \"%s\".'',
                           [S (table_name ht)])))
            else Inr ())"

record PolicyReorderData =
  reorder_hypertable :: Hypertable
  index_relid :: Oid

definition policy_reorder_read_and_validate_config ::
  "Ext \<Rightarrow> Jsonb \<Rightarrow> Db \<Rightarrow> error + PolicyReorderData" where
  "policy_reorder_read_and_validate_config ext cfg d =
     ebind (policy_reorder_get_hypertable_id ext cfg) (\<lambda>htid.
     let ht = ts_hypertable_get_by_id htid d
     in ebind (policy_reorder_get_index_name ext cfg) (\<lambda>index_name.
        case ht of
          None \<Rightarrow> Inl (Ereport ERRCODE_INVALID_PARAMETER_VALUE
                    (''configuration hypertable id %d not found'', [D htid]) None None)
        | Some ht \<Rightarrow>
            ebind (check_valid_index ht index_name d) (\<lambda>_.
            ebind (get_namespace_oid (schema_name ht) d) (\<lambda>nsp.
            Inr \<lparr>reorder_hypertable = ht,
                 index_relid = get_relname_relid index_name nsp d\<rparr>))))"

definition policy_reorder_execute :: "Ext \<Rightarrow> int32 \<Rightarrow> Jsonb \<Rightarrow> bool pg" where
  "policy_reorder_execute ext job_id cfg =
     pg_bind (pg_read (policy_reorder_read_and_validate_config ext cfg)) (\<lambda>policy.
     pg_bind (pg_read (get_chunk_id_to_reorder ext job_id (reorder_hypertable policy))) (\<lambda>cid.
     if cid = - 1
     then pg_then
            (elog NOTICE (''no chunks need reordering for hypertable %s.%s'',
               [S (schema_name (reorder_hypertable policy)),
                S (table_name (reorder_hypertable policy))]))
            (pg_return True)
     else
       pg_bind (pg_read (ts_chunk_get_by_id cid False)) (\<lambda>chunk_ptr.
       case chunk_ptr of
         None \<Rightarrow> pg_raise Segfault
       | Some c \<Rightarrow>
           pg_then (elog DEBUG1 (''reordering chunk %s.%s'',
                      [S (chunk_schema_name c), S (chunk_table_name c)]))
          (pg_then (reorder_chunk (table_id c) (index_relid policy))
          (pg_then (elog DEBUG1 (''completed reordering chunk %s.%s'',
                      [S (chunk_schema_name c), S (chunk_table_name c)]))
          (pg_bind (pg_get ts_timer_get_current_timestamp) (\<lambda>now.
           pg_then (ts_bgw_policy_chunk_stats_record_job_run job_id cid now)
          (pg_bind (pg_read (get_chunk_id_to_reorder ext job_id (reorder_hypertable policy)))
             (\<lambda>next_cid.
           pg_then (pg_when (next_cid \<noteq> - 1) (enable_fast_restart job_id ''reorder''))
                   (pg_return True))))))))))"

subsection \<open>Retention\<close>

definition get_open_dimension_for_hypertable ::
  "Ext \<Rightarrow> Hypertable option \<Rightarrow> Db \<Rightarrow> error + Dimension" where
  "get_open_dimension_for_hypertable ext ht_ptr d =
     (case ht_ptr of
        None \<Rightarrow> Inl Segfault
      | Some ht \<Rightarrow>
          let mat_id = ht_id ht
          in case hyperspace_get_open_dimension (space ht) 0 of
               None \<Rightarrow> Inl Segfault
             | Some open_dim \<Rightarrow>
                 let partitioning_type = ts_dimension_get_partition_type open_dim
                 in if IS_INTEGER_TYPE partitioning_type
                    then (case ts_continuous_agg_find_integer_now_func_by_materialization_id
                                 ext d mat_id of
                            None \<Rightarrow> Inl (elog_ERROR
                              (''missing integer_now function for hypertable \"%s\" '',
                               [S (table_name ht)]))
                          | Some now_dim \<Rightarrow> Inr now_dim)
                    else Inr open_dim)"

record PolicyRetentionData =
  object_relid :: Oid
  boundary :: Datum
  boundary_type :: Oid

definition policy_retention_read_and_validate_config ::
  "Ext \<Rightarrow> Jsonb \<Rightarrow> Db \<Rightarrow> error + PolicyRetentionData" where
  "policy_retention_read_and_validate_config ext cfg d =
     ebind (policy_retention_get_hypertable_id ext cfg) (\<lambda>htid.
     let object_relid0 = ts_hypertable_id_to_relid htid d
     in ebind (ts_hypertable_cache_get_cache_and_entry object_relid0 d) (\<lambda>ht.
        ebind (get_open_dimension_for_hypertable ext (Some ht) d) (\<lambda>open_dim.
        ebind (get_window_boundary ext open_dim cfg
                 (policy_retention_get_drop_after_int ext)
                 (policy_retention_get_drop_after_interval ext) d) (\<lambda>bnd.
        let bnd_type = ts_dimension_get_partition_type open_dim
        in ebind (case ts_continuous_agg_find_by_mat_hypertable_id (ht_id ht) d of
                    None \<Rightarrow> Inr object_relid0
                  | Some cagg \<Rightarrow>
                      ebind (get_namespace_oid (user_view_schema cagg) d) (\<lambda>nsp.
                      Inr (get_relname_relid (user_view_name cagg) nsp d))) (\<lambda>relid.
           Inr \<lparr>object_relid = relid, boundary = bnd, boundary_type = bnd_type\<rparr>)))))"

definition policy_retention_execute :: "Ext \<Rightarrow> int32 \<Rightarrow> Jsonb \<Rightarrow> bool pg" where
  "policy_retention_execute ext job_id cfg =
     pg_bind (pg_read (policy_retention_read_and_validate_config ext cfg)) (\<lambda>policy_data.
     pg_then (chunk_invoke_drop_chunks (object_relid policy_data) (boundary policy_data)
                (boundary_type policy_data))
             (pg_return True))"


subsection \<open>Continuous-aggregate refresh\<close>

record PolicyContinuousAggData =
  refresh_window_type :: Oid
  refresh_window_start :: int64
  refresh_window_end :: int64
  cagg :: "ContinuousAgg option"

definition policy_refresh_cagg_read_and_validate_config ::
  "Ext \<Rightarrow> Jsonb \<Rightarrow> Db \<Rightarrow> error + PolicyContinuousAggData" where
  "policy_refresh_cagg_read_and_validate_config ext cfg d =
     ebind (policy_continuous_aggregate_get_mat_hypertable_id ext cfg) (\<lambda>materialization_id.
     let mat_ht = ts_hypertable_get_by_id materialization_id d
     in ebind (get_open_dimension_for_hypertable ext mat_ht d) (\<lambda>open_dim.
        let dim_type = ts_dimension_get_partition_type open_dim
        in ebind (policy_refresh_cagg_get_refresh_start ext d open_dim cfg) (\<lambda>refresh_start.
           ebind (policy_refresh_cagg_get_refresh_end ext d open_dim cfg) (\<lambda>refresh_end.
           if refresh_start \<ge> refresh_end
           then Inl (Ereport ERRCODE_INVALID_PARAMETER_VALUE
                  (''invalid refresh window'', [])
                  (Some (''start_offset: %s, end_offset: %s'',
                         [S (ts_internal_to_time_string ext refresh_start dim_type),
                          S (ts_internal_to_time_string ext refresh_end dim_type)]))
                  (Some (''The start of the window must be before the end.'', [])))
           else Inr \<lparr>refresh_window_type = dim_type,
                     refresh_window_start = refresh_start,
                     refresh_window_end = refresh_end,
                     cagg = ts_continuous_agg_find_by_mat_hypertable_id materialization_id d\<rparr>))))"

definition policy_refresh_cagg_execute :: "Ext \<Rightarrow> int32 \<Rightarrow> Jsonb \<Rightarrow> bool pg" where
  "policy_refresh_cagg_execute ext job_id cfg =
     pg_bind (pg_read (policy_refresh_cagg_read_and_validate_config ext cfg)) (\<lambda>policy_data.
     pg_then (elog LOG (''refresh continuous aggregate range %s , %s'',
                [S (ts_internal_to_time_string ext (refresh_window_start policy_data)
                      (refresh_window_type policy_data)),
                 S (ts_internal_to_time_string ext (refresh_window_end policy_data)
                      (refresh_window_type policy_data))]))
    (pg_then (continuous_agg_refresh_internal ext (cagg policy_data)
                (refresh_window_type policy_data) (refresh_window_start policy_data)
                (refresh_window_end policy_data))
             (pg_return True)))"

subsection \<open>Compression\<close>

record PolicyCompressionData =
  compression_hypertable :: Hypertable

definition policy_compression_read_and_validate_config ::
  "Ext \<Rightarrow> Jsonb \<Rightarrow> Db \<Rightarrow> error + PolicyCompressionData" where
  "policy_compression_read_and_validate_config ext cfg d =
     ebind (policy_compression_get_hypertable_id ext cfg) (\<lambda>htid.
     let table_relid = ts_hypertable_id_to_relid htid d
     in ebind (ts_hypertable_cache_get_cache_and_entry table_relid d) (\<lambda>ht.
        Inr \<lparr>compression_hypertable = ht\<rparr>))"

text \<open>
  The C function reads the open dimension once and passes the pointer to both
  calls of \<^verbatim>\<open>get_chunk_to_compress\<close>, which dereferences it first.
\<close>

definition policy_compression_execute :: "Ext \<Rightarrow> int32 \<Rightarrow> Jsonb \<Rightarrow> bool pg" where
  "policy_compression_execute ext job_id cfg =
     pg_bind (pg_read (policy_compression_read_and_validate_config ext cfg)) (\<lambda>policy_data.
     case hyperspace_get_open_dimension (space (compression_hypertable policy_data)) 0 of
       None \<Rightarrow> pg_raise Segfault
     | Some dim \<Rightarrow>
         pg_bind (pg_read (get_chunk_to_compress ext dim cfg)) (\<lambda>chunkid.
         pg_then (pg_when (chunkid = INVALID_CHUNK_ID)
                    (elog NOTICE
                       (''no chunks for hypertable %s.%s that satisfy compress chunk policy'',
                        [S (schema_name (compression_hypertable policy_data)),
                         S (table_name (compression_hypertable policy_data))])))
        (pg_then (pg_when (chunkid \<noteq> INVALID_CHUNK_ID)
                    (pg_bind (pg_read (ts_chunk_get_by_id chunkid True)) (\<lambda>chunk_ptr.
                     case chunk_ptr of
                       None \<Rightarrow> pg_raise Segfault
                     | Some c \<Rightarrow>
                         pg_then (tsl_compress_chunk_wrapper c)
                                 (elog LOG (''completed compressing chunk %s.%s'',
                                    [S (chunk_schema_name c), S (chunk_table_name c)])))))
        (pg_bind (pg_read (get_chunk_to_compress ext dim cfg)) (\<lambda>chunkid2.
         pg_then (pg_when (chunkid2 \<noteq> INVALID_CHUNK_ID)
                    (enable_fast_restart job_id ''compression''))
        (pg_then (elog DEBUG1 (''job %d completed compressing chunk'', [D job_id]))
                 (pg_return True)))))))"


section \<open>Job administration (\<^verbatim>\<open>job_api.c\<close>)\<close>

definition NAMEDATALEN :: nat where
  "NAMEDATALEN = 64"


definition USECS_PER_DAY :: int64 where
  "USECS_PER_DAY = 86400000000"




text \<open>
  PostgreSQL's \<^verbatim>\<open>namestrcmp\<close> is \<^verbatim>\<open>strncmp\<close> over \<open>NAMEDATALEN\<close> bytes; only
  whether its result is zero is used. \<^verbatim>\<open>namestrcpy\<close> keeps \<open>NAMEDATALEN - 1\<close> bytes.
\<close>

definition namestrcmp :: "Name \<Rightarrow> string \<Rightarrow> int" where
  "namestrcmp name str = (if take NAMEDATALEN name = take NAMEDATALEN str then 0 else 1)"


text \<open>
  PostgreSQL's \<^verbatim>\<open>interval_eq\<close> compares the two spans in microseconds, a month
  counting as 30 days and a day as 24 hours.
\<close>

definition interval_cmp_value :: "Interval \<Rightarrow> int" where
  "interval_cmp_value i = time i + (month i * 30 + day i) * USECS_PER_DAY"

definition interval_eq :: "Interval \<Rightarrow> Interval \<Rightarrow> bool" where
  "interval_eq i1 i2 = (interval_cmp_value i1 = interval_cmp_value i2)"

text \<open>Check configuration for a job type.\<close>

definition job_config_check :: "Ext \<Rightarrow> Name \<Rightarrow> Name \<Rightarrow> Jsonb \<Rightarrow> Db \<Rightarrow> error + unit" where
  "job_config_check ext proc_schema_v proc_name_v cfg d =
     (if namestrcmp proc_schema_v INTERNAL_SCHEMA_NAME = 0
      then
        if namestrcmp proc_name_v ''policy_retention'' = 0
        then ebind (policy_retention_read_and_validate_config ext cfg d) (\<lambda>_. Inr ())
        else if namestrcmp proc_name_v ''policy_reorder'' = 0
        then ebind (policy_reorder_read_and_validate_config ext cfg d) (\<lambda>_. Inr ())
        else if namestrcmp proc_name_v ''policy_compression'' = 0
        then ebind (policy_compression_read_and_validate_config ext cfg d) (\<lambda>_. Inr ())
        else if namestrcmp proc_name_v ''policy_refresh_continuous_aggregate'' = 0
        then ebind (policy_refresh_cagg_read_and_validate_config ext cfg d) (\<lambda>_. Inr ())
        else Inr ()
      else Inr ())"


definition TS_PREVENT_FUNC_IF_READ_ONLY :: "unit pg" where
  \<comment> \<open>Modelled from the spec: the macro is declared outside the two files; a
      function that writes the catalog is refused in a read-only transaction.\<close>
  "TS_PREVENT_FUNC_IF_READ_ONLY = (\<lambda>w.
     if xact_read_only w
     then (Inl (Ereport ERRCODE_READ_ONLY_SQL_TRANSACTION
                 (''cannot execute %s() in a read-only transaction'', []) None None), w)
     else (Inr (), w))"






definition ts_bgw_job_find :: "int32 \<Rightarrow> bool \<Rightarrow> BgwJob option pg" where
  \<comment> \<open>Modelled from the spec: \<^verbatim>\<open>bgw/job.c\<close> is missing; the Job row with this
      id, "fails UndefinedObject if missing" when \<open>fail_if_not_found\<close>.\<close>
  "ts_bgw_job_find job_id fail_if_not_found = (\<lambda>w.
     case bgw_job w job_id of
       None \<Rightarrow>
         if fail_if_not_found
         then (Inl (Ereport ERRCODE_UNDEFINED_OBJECT (''job %d not found'', [D job_id])
                      None None), w)
         else (Inr None, w)
     | Some job \<Rightarrow> (Inr (Some job), w))"

definition find_job :: "int32 \<Rightarrow> bool \<Rightarrow> bool \<Rightarrow> BgwJob option pg" where
  "find_job job_id null_job_id missing_ok =
     (if null_job_id \<and> \<not> missing_ok
      then pg_raise (Ereport ERRCODE_INVALID_PARAMETER_VALUE
             (''job ID cannot be NULL'', []) None None)
      else
        pg_bind (ts_bgw_job_find job_id (\<not> missing_ok)) (\<lambda>job.
        pg_then (pg_when (job = None)
                   (elog NOTICE (''job %d not found, skipping'', [D job_id])))
                (pg_return job)))"

datatype ScanTupleResult = SCAN_DONE | SCAN_CONTINUE

definition ts_catalog_update :: "int32 \<Rightarrow> BgwJob \<Rightarrow> unit pg" where
  \<comment> \<open>Modelled from the spec: \<^verbatim>\<open>catalog.c\<close> is missing; the scanned row of the
      job table is replaced by the new tuple.\<close>
  "ts_catalog_update key new_tuple = (\<lambda>w.
     (Inr (), w\<lparr>bgw_job := (bgw_job w)(key \<mapsto> new_tuple)\<rparr>))"

text \<open>
  This function only updates the fields modifiable with \<^verbatim>\<open>alter_job\<close>. \<open>key\<close> and
  \<open>tuple\<close> are the row the scan found; the arrays \<^verbatim>\<open>values\<close>, \<^verbatim>\<open>isnull\<close>, \<^verbatim>\<open>repl\<close>
  and \<^verbatim>\<open>heap_modify_tuple\<close> are the updates of the row's fields.
\<close>

definition bgw_job_tuple_update_by_id :: "Ext \<Rightarrow> int32 \<Rightarrow> BgwJob \<Rightarrow> BgwJob \<Rightarrow> ScanTupleResult pg" where
  "bgw_job_tuple_update_by_id ext key tuple updated_job =
     (let old_schedule_interval = schedule_interval tuple in
      pg_bind
        (if \<not> interval_eq old_schedule_interval (schedule_interval updated_job)
         then
           pg_bind (pg_get (ts_bgw_job_stat_find (fd_id updated_job))) (\<lambda>stat.
           pg_then
             (case stat of
                None \<Rightarrow> pg_return ()
              | Some st \<Rightarrow>
                  pg_bind (pg_read (\<lambda>_. timestamptz_pl_interval ext (last_finish st)
                                          (schedule_interval updated_job))) (\<lambda>next_start_v.
                  pg_then (ts_bgw_job_stat_update_next_start (fd_id updated_job)
                             next_start_v True)
                          (pg_return ())))
             (pg_return (tuple\<lparr>schedule_interval := schedule_interval updated_job\<rparr>)))
         else pg_return tuple) (\<lambda>t1.
      let t2 = t1\<lparr>max_runtime := max_runtime updated_job,
                  max_retries := max_retries updated_job,
                  retry_period := retry_period updated_job,
                  scheduled := scheduled updated_job\<rparr> in
      pg_bind
        (case config updated_job of
           Some cfg \<Rightarrow>
             pg_then (pg_read (job_config_check ext (proc_schema updated_job)
                                 (proc_name updated_job) cfg))
                     (pg_return (t2\<lparr>config := Some cfg\<rparr>))
         | None \<Rightarrow> pg_return (t2\<lparr>config := None\<rparr>)) (\<lambda>new_tuple.
      pg_then (ts_catalog_update key new_tuple)
              (pg_return SCAN_DONE))))"

text \<open>
  Overwrite job with specified \<open>job_id\<close> with the given fields: a scan of the
  primary key with limit 1, which calls the function above on the row it finds.
\<close>

definition ts_bgw_job_update_by_id :: "Ext \<Rightarrow> int32 \<Rightarrow> BgwJob \<Rightarrow> unit pg" where
  "ts_bgw_job_update_by_id ext job_id job = (\<lambda>w.
     case bgw_job w job_id of
       None \<Rightarrow> (Inr (), w)
     | Some tuple \<Rightarrow>
         pg_then (bgw_job_tuple_update_by_id ext job_id tuple job) (pg_return ()) w)"

definition PG_GETARG_INT32 :: "int32 option \<Rightarrow> int32" where
  "PG_GETARG_INT32 arg = (case arg of None \<Rightarrow> 0 | Some v \<Rightarrow> v)"

definition job_run :: "Ext \<Rightarrow> int32 option \<Rightarrow> unit pg" where
  "job_run ext job_id_arg =
     (let job_id = PG_GETARG_INT32 job_id_arg in
      pg_bind (find_job job_id (job_id_arg = None) False) (\<lambda>job.
      case job of
        None \<Rightarrow> pg_raise Segfault
      | Some job \<Rightarrow> pg_then (job_execute ext job) (pg_return ())))"

record AlterJobArgs =
  arg_job_id :: "int32 option"
  arg_schedule_interval :: "Interval option"
  arg_max_runtime :: "Interval option"
  arg_max_retries :: "int32 option"
  arg_retry_period :: "Interval option"
  arg_scheduled :: "bool option"
  arg_config :: "Jsonb option"
  arg_next_start :: "TimestampTz option"
  arg_if_exists :: bool
  accepts_record :: bool

record AlterJobRow =
  out_job_id :: int32
  out_schedule_interval :: Interval
  out_max_runtime :: Interval
  out_max_retries :: int32
  out_retry_period :: Interval
  out_scheduled :: bool
  out_config :: "Jsonb option"
  out_next_start :: TimestampTz

text \<open>
  The assignments of \<^verbatim>\<open>job_alter\<close> to the copy of the row it found: an argument
  that is not NULL overwrites its field.
\<close>

definition job_alter_set_fields :: "AlterJobArgs \<Rightarrow> BgwJob \<Rightarrow> BgwJob" where
  "job_alter_set_fields args job0 =
     (let job1 = (case arg_schedule_interval args of
                    None \<Rightarrow> job0 | Some v \<Rightarrow> job0\<lparr>schedule_interval := v\<rparr>);
          job2 = (case arg_max_runtime args of
                    None \<Rightarrow> job1 | Some v \<Rightarrow> job1\<lparr>max_runtime := v\<rparr>);
          job3 = (case arg_max_retries args of
                    None \<Rightarrow> job2 | Some v \<Rightarrow> job2\<lparr>max_retries := v\<rparr>);
          job4 = (case arg_retry_period args of
                    None \<Rightarrow> job3 | Some v \<Rightarrow> job3\<lparr>retry_period := v\<rparr>);
          job5 = (case arg_scheduled args of
                    None \<Rightarrow> job4 | Some v \<Rightarrow> job4\<lparr>scheduled := v\<rparr>)
      in case arg_config args of
           None \<Rightarrow> job5 | Some v \<Rightarrow> job5\<lparr>config := Some v\<rparr>)"

definition job_alter :: "Ext \<Rightarrow> AlterJobArgs \<Rightarrow> AlterJobRow option pg" where
  "job_alter ext args =
     (let job_id = PG_GETARG_INT32 (arg_job_id args);
          if_exists = arg_if_exists args in
      pg_then TS_PREVENT_FUNC_IF_READ_ONLY
     (if \<not> accepts_record args
      then pg_raise (Ereport ERRCODE_FEATURE_NOT_SUPPORTED
             (''function returning record called in context that cannot accept type record'',
              []) None None)
      else
      pg_bind (find_job job_id (arg_job_id args = None) if_exists) (\<lambda>job_ptr.
      case job_ptr of
        None \<Rightarrow> pg_return None
      | Some job0 \<Rightarrow>
      pg_bind (pg_get current_user) (\<lambda>user.
      pg_then (pg_read (\<lambda>d. ts_bgw_job_permission_check ext d user job0))
     (let job = job_alter_set_fields args job0
      in
      pg_then (ts_bgw_job_update_by_id ext job_id job)
     (pg_then (case arg_next_start args of
                 None \<Rightarrow> pg_return ()
               | Some v \<Rightarrow> ts_bgw_job_stat_upsert_next_start job_id v)
     (pg_bind (pg_get (ts_bgw_job_stat_find job_id)) (\<lambda>stat.
      let next_start_v = (case stat of Some st \<Rightarrow> next_start st | None \<Rightarrow> DT_NOBEGIN)
      in pg_return (Some \<lparr>out_job_id = fd_id job,
                          out_schedule_interval = schedule_interval job,
                          out_max_runtime = max_runtime job,
                          out_max_retries = max_retries job,
                          out_retry_period = retry_period job,
                          out_scheduled = scheduled job,
                          out_config = config job,
                          out_next_start = next_start_v\<rparr>)))))))))"


section \<open>The claims' words\<close>

text \<open>
  The claim's words for the compression policy: a chunk is eligible when it lies
  on the dimension, its range ends strictly before the boundary, and it is
  neither compressed already nor dropped.
\<close>

definition eligible_for_compression :: "int32 \<Rightarrow> int64 \<Rightarrow> Chunk \<Rightarrow> bool" where
  "eligible_for_compression dimension_id bnd c =
     (slice_dimension_id c = dimension_id \<and> range_end c < bnd \<and> \<not> compressed c \<and>
      \<not> dropped c)"

section \<open>Examples\<close>

subsection \<open>Example collaborators and sessions\<close>

definition example_int_field :: "string \<Rightarrow> Jsonb \<Rightarrow> error + int" where
  "example_int_field key cfg =
     (case map_of cfg key of
        Some (JNum n) \<Rightarrow> Inr n
      | _ \<Rightarrow> Inl (Ereport ERRCODE_INVALID_PARAMETER_VALUE
                 (''could not find %s in config for job'', [S key]) None None))"

definition example_interval_field :: "string \<Rightarrow> Jsonb \<Rightarrow> error + Interval" where
  "example_interval_field key cfg =
     (case map_of cfg key of
        Some (JInterval i) \<Rightarrow> Inr i
      | _ \<Rightarrow> Inl (Ereport ERRCODE_INVALID_PARAMETER_VALUE
                 (''could not find %s in config for job'', [S key]) None None))"

definition example_string_field :: "string \<Rightarrow> Jsonb \<Rightarrow> error + string" where
  "example_string_field key cfg =
     (case map_of cfg key of
        Some (JStr s) \<Rightarrow> Inr s
      | _ \<Rightarrow> Inl (Ereport ERRCODE_INVALID_PARAMETER_VALUE
                 (''could not find %s in config for job'', [S key]) None None))"

fun example_digits :: "nat \<Rightarrow> nat \<Rightarrow> string" where
  "example_digits 0 n = []"
| "example_digits (Suc fuel) n =
     (if n < 10 then [char_of (48 + n)]
      else example_digits fuel (n div 10) @ [char_of (48 + n mod 10)])"

definition example_time_string :: "int64 \<Rightarrow> Oid \<Rightarrow> string" where
  "example_time_string v t = example_digits 20 (nat v)"


definition example_ext :: Ext where
  "example_ext = \<lparr>
     ExecEvalExpr = (\<lambda>_ _ _. pg_return ()),
     ExecuteCallStmt = (\<lambda>_ _ _. pg_return ()),
     policy_reorder_get_hypertable_id = example_int_field ''hypertable_id'',
     policy_reorder_get_index_name = example_string_field ''index_name'',
     policy_retention_get_hypertable_id = example_int_field ''hypertable_id'',
     policy_retention_get_drop_after_int = example_int_field ''drop_after'',
     policy_retention_get_drop_after_interval = example_interval_field ''drop_after'',
     policy_compression_get_hypertable_id = example_int_field ''hypertable_id'',
     policy_compression_get_compress_after_int = example_int_field ''compress_after'',
     policy_compression_get_compress_after_interval = example_interval_field ''compress_after'',
     policy_continuous_aggregate_get_mat_hypertable_id = example_int_field ''mat_hypertable_id'',
     policy_refresh_cagg_get_refresh_start =
       (\<lambda>d _ cfg. ebind (example_int_field ''start_offset'' cfg)
                     (\<lambda>off. Inr (xact_start_timestamp d - off))),
     policy_refresh_cagg_get_refresh_end =
       (\<lambda>d _ cfg. ebind (example_int_field ''end_offset'' cfg)
                     (\<lambda>off. Inr (xact_start_timestamp d - off))),
     subtract_integer_from_now = (\<lambda>d lag _ _. Inr (xact_start_timestamp d - lag)),
     subtract_interval_from_now = (\<lambda>d lag _. Inr (xact_start_timestamp d - time lag)),
     ts_time_value_to_internal = (\<lambda>v _. v),
     ts_internal_to_time_string = example_time_string,
     timestamptz_pl_interval =
       (\<lambda>t i. if t = DT_NOBEGIN then Inr t else Inr (t + interval_cmp_value i)),
     ts_continuous_agg_find_integer_now_func_by_materialization_id = (\<lambda>_ _. None),
     ts_dimension_slice_nth_latest_slice = (\<lambda>_ _ _. None),
     ts_dimension_slice_oldest_valid_chunk_for_reorder = (\<lambda>_ _ _ _ _ _ _. - 1),
     continuous_agg_refresh_internal = (\<lambda>_ _ _ _. pg_return ()),
     pg_proc_aclcheck = (\<lambda>_ _ _. True),
     ts_bgw_job_validate_job_owner = (\<lambda>_ _. Inr ()),
     ts_bgw_job_permission_check = (\<lambda>_ _ _. Inr ())\<rparr>"

definition TIMESTAMPTZOID :: Oid where
  "TIMESTAMPTZOID = 1184"

definition example_db :: Db where
  "example_db = \<lparr>
     hypertables =
       [\<lparr>ht_id = 1, schema_name = ''public'', table_name = ''conditions'',
         main_table_relid = 5001,
         space = [\<lparr>dim_id = 1, dim_type = DIMENSION_TYPE_OPEN,
                   partition_type = TIMESTAMPTZOID, integer_now_func = 0\<rparr>]\<rparr>,
        \<lparr>ht_id = 2, schema_name = ''_timescaledb_internal'',
         table_name = ''_materialized_hypertable_2'', main_table_relid = 5002,
         space = [\<lparr>dim_id = 2, dim_type = DIMENSION_TYPE_OPEN,
                   partition_type = TIMESTAMPTZOID, integer_now_func = 0\<rparr>]\<rparr>],
     continuous_aggs =
       [\<lparr>mat_hypertable_id = 2, raw_hypertable_id = 1,
         user_view_schema = ''public'', user_view_name = ''my_view''\<rparr>],
     chunks =
       [\<lparr>chunk_id = 1, chunk_schema_name = ''_timescaledb_internal'',
         chunk_table_name = ''_hyper_1_1_chunk'', table_id = 8001,
         slice_dimension_id = 1, range_start = 0, range_end = 100,
         compressed = False, dropped = False\<rparr>,
        \<lparr>chunk_id = 2, chunk_schema_name = ''_timescaledb_internal'',
         chunk_table_name = ''_hyper_1_2_chunk'', table_id = 8002,
         slice_dimension_id = 1, range_start = 100, range_end = 200,
         compressed = False, dropped = False\<rparr>,
        \<lparr>chunk_id = 3, chunk_schema_name = ''_timescaledb_internal'',
         chunk_table_name = ''_hyper_1_3_chunk'', table_id = 8003,
         slice_dimension_id = 1, range_start = 900, range_end = 1000,
         compressed = False, dropped = False\<rparr>],
     bgw_policy_chunk_stats = [],
     pg_namespace = [''public'' \<mapsto> 2200, ''_timescaledb_internal'' \<mapsto> 2300],
     pg_class = [(2200, ''conditions'') \<mapsto> 5001,
                 (2200, ''my_view'') \<mapsto> 7001,
                 (2300, ''_materialized_hypertable_2'') \<mapsto> 5002,
                 (2200, ''conditions_time_idx'') \<mapsto> 6001],
     pg_index = [6001 \<mapsto> 5001],
     pg_proc =
       [\<lparr>proc_oid = 4711, pronamespace = ''public'', proname = ''my_refresh'',
         proc_prokind = PROKIND_PROCEDURE\<rparr>,
        \<lparr>proc_oid = 4712, pronamespace = ''public'', proname = ''my_action'',
         proc_prokind = PROKIND_FUNCTION\<rparr>],
     xact_start_timestamp = 1000,
     timer_timestamp = 1000,
     storage_actions = []\<rparr>"

definition example_job :: BgwJob where
  "example_job = \<lparr>fd_id = 1000, application_name = ''User-Defined Action'',
     job_type = ''custom'',
     schedule_interval = \<lparr>time = 3600000000, day = 0, month = 0\<rparr>,
     max_runtime = \<lparr>time = 0, day = 0, month = 0\<rparr>, max_retries = - 1,
     retry_period = \<lparr>time = 300000000, day = 0, month = 0\<rparr>,
     proc_schema = ''public'', proc_name = ''my_refresh'', owner = ''alice'',
     scheduled = True, fd_hypertable_id = 0, config = None\<rparr>"

text \<open>A session with no transaction open, as a background worker starts a job.\<close>

definition example_world :: World where
  "example_world = \<lparr>
     db = example_db, xact_open = False, active_snapshots = 0, xact_read_only = False,
     xact_calls = [], current_user = ''alice'',
     bgw_job = [1000 \<mapsto> example_job], bgw_job_id_seq = 1001,
     bgw_job_stat = [1000 \<mapsto> \<lparr>last_start = 700, last_finish = 800, next_start = 4400\<rparr>],
     server_log = []\<rparr>"

text \<open>
  A procedure that commits its own transaction: it pops the active snapshots,
  commits and starts a new transaction, which has no active snapshot.
\<close>

definition commit_and_restart :: "unit pg" where
  "commit_and_restart =
     pg_bind (pg_get ActiveSnapshotSet) (\<lambda>still_set.
     pg_bind (pg_when still_set PopActiveSnapshot) (\<lambda>_.
     pg_bind CommitTransactionCommand (\<lambda>_. StartTransactionCommand)))"

definition committing_ext :: Ext where
  "committing_ext = example_ext\<lparr>ExecuteCallStmt := (\<lambda>_ _ _. commit_and_restart)\<rparr>"

subsection \<open>Example jobs\<close>

text \<open>A refresh policy on the continuous aggregate of hypertable 2: window 500 to 900.\<close>

definition refresh_policy_job :: BgwJob where
  "refresh_policy_job = \<lparr>fd_id = 1001,
     application_name = ''Refresh Continuous Aggregate Policy'', job_type = ''custom'',
     schedule_interval = \<lparr>time = 3600000000, day = 0, month = 0\<rparr>,
     max_runtime = \<lparr>time = 0, day = 0, month = 0\<rparr>, max_retries = - 1,
     retry_period = \<lparr>time = 300000000, day = 0, month = 0\<rparr>,
     proc_schema = ''_timescaledb_internal'',
     proc_name = ''policy_refresh_continuous_aggregate'', owner = ''alice'',
     scheduled = True, fd_hypertable_id = 2,
     config = Some [(''mat_hypertable_id'', JNum 2), (''start_offset'', JNum 500),
                    (''end_offset'', JNum 100)]\<rparr>"

text \<open>
  A session inside a transaction, with the two jobs; job 1001 has never run, and
  its \<open>next_start\<close> was seeded when it was added.
\<close>

definition admin_world :: World where
  "admin_world = example_world\<lparr>
     xact_open := True,
     bgw_job := [1000 \<mapsto> example_job, 1001 \<mapsto> refresh_policy_job],
     bgw_job_id_seq := 1002,
     bgw_job_stat :=
       [1000 \<mapsto> \<lparr>last_start = 700, last_finish = 800, next_start = 4400\<rparr>,
        1001 \<mapsto> \<lparr>last_start = DT_NOBEGIN, last_finish = DT_NOBEGIN, next_start = 4200\<rparr>]\<rparr>"

definition no_alter_args :: AlterJobArgs where
  "no_alter_args = \<lparr>arg_job_id = Some 1001, arg_schedule_interval = None,
     arg_max_runtime = None, arg_max_retries = None, arg_retry_period = None,
     arg_scheduled = None, arg_config = None, arg_next_start = None,
     arg_if_exists = False, accepts_record = True\<rparr>"

text \<open>A refresh window from 100 to 50, at the session's time 1000.\<close>

definition inverted_window_config :: Jsonb where
  "inverted_window_config =
     [(''mat_hypertable_id'', JNum 2), (''start_offset'', JNum 900), (''end_offset'', JNum 950)]"

text \<open>A refresh window from 50 to 100.\<close>

definition valid_window_config :: Jsonb where
  "valid_window_config =
     [(''mat_hypertable_id'', JNum 2), (''start_offset'', JNum 950), (''end_offset'', JNum 900)]"

definition two_hours :: Interval where
  "two_hours = \<lparr>time = 7200000000, day = 0, month = 0\<rparr>"

text \<open>A retention policy on the hypertable with this id: drop what is older than 300.\<close>

definition retention_config :: "int \<Rightarrow> Jsonb" where
  "retention_config htid =
     [(''hypertable_id'', JNum htid),
      (''drop_after'', JInterval \<lparr>time = 300, day = 0, month = 0\<rparr>)]"

text \<open>
  A compression policy on hypertable 1 (compress what ended more than \<open>after\<close>
  ago) and a reorder policy on it.
\<close>

definition compression_config :: "int \<Rightarrow> Jsonb" where
  "compression_config after =
     [(''hypertable_id'', JNum 1),
      (''compress_after'', JInterval \<lparr>time = after, day = 0, month = 0\<rparr>)]"

definition reorder_config :: Jsonb where
  "reorder_config =
     [(''hypertable_id'', JNum 1), (''index_name'', JStr ''conditions_time_idx'')]"

section \<open>Properties\<close>

lemmas pg_defs = pg_bind_def pg_then_def pg_return_def pg_raise_def pg_read_def pg_when_def
  pg_get_def ebind_def elog_def
lemmas xact_defs = IsTransactionOrTransactionBlock_def ActiveSnapshotSet_def
  StartTransactionCommand_def CommitTransactionCommand_def PushActiveSnapshot_def
  PopActiveSnapshot_def
lemmas stat_defs = ts_bgw_job_stat_find_def ts_bgw_job_stat_update_next_start_def
  ts_bgw_job_stat_upsert_next_start_def ts_bgw_job_stat_set_next_start_def
lemmas example_defs = example_ext_def example_db_def example_job_def example_world_def
  committing_ext_def commit_and_restart_def

subsection \<open>The job runtime executor\<close>

text \<open>
  Claim C1, as stated, at a job whose procedure commits its own transaction, run
  with no transaction open (so that \<open>job_execute\<close> opens one): the run
  succeeds and nothing is popped from an empty stack, but \<open>job_execute\<close> does
  commit after the procedure's own commit. The calls to the transaction
  manager are: start and push (by \<open>job_execute\<close>), pop, commit and start (by
  the procedure), commit (by \<open>job_execute\<close>): two commits.
\<close>

theorem C1_second_commit_counterexample:
  "fst (job_execute committing_ext example_job example_world) = Inr True \<and>
   xact_calls (snd (job_execute committing_ext example_job example_world)) =
     [XStartTransactionCommand, XPushActiveSnapshot, XPopActiveSnapshot,
      XCommitTransactionCommand, XStartTransactionCommand, XCommitTransactionCommand] \<and>
   count_list (xact_calls (snd (job_execute committing_ext example_job example_world)))
     XCommitTransactionCommand = 2"
  by (simp add: job_execute_def example_defs
      job_execute_procedure_def LookupFuncName_def get_func_prokind_def pg_defs xact_defs)

text \<open>
  Claim C1, amended. Let the job's callable (a function or a procedure) be found
  and return normally, leaving a transaction open (as a callable that never
  touches the transaction does, and as one that commits and restarts does).
  Then \<open>job_execute\<close> succeeds, and after the callable it calls the transaction
  manager exactly so: \<open>PopActiveSnapshot\<close> if and only if this call pushed the
  snapshot and a snapshot is still active; then \<open>CommitTransactionCommand\<close> if
  and only if this call started the transaction. In particular, after a
  procedure that committed its own transaction and left no active snapshot,
  nothing is popped; no further commit is made when the caller had opened the
  transaction, and one commit, of the transaction that the procedure's
  restart left open, is made when this call had opened it.
\<close>

theorem C1_job_execute_frame:
  assumes lookup: "LookupFuncName (proc_schema job) (proc_name job) (db w) = Inr proc"
    and kind: "get_func_prokind proc (db w) = Inr kind"
    and callable: "kind = PROKIND_FUNCTION \<and> callable = ExecEvalExpr ext \<or>
                   kind = PROKIND_PROCEDURE \<and> callable = ExecuteCallStmt ext"
    and w1: "w1 = snd (pg_when (\<not> IsTransactionOrTransactionBlock w) StartTransactionCommand w)"
    and w2: "w2 = snd (pg_when (\<not> ActiveSnapshotSet w1) PushActiveSnapshot w1)"
    and run: "callable proc (fd_id job) (config job) w2 = (Inr (), w3)"
    and restarted: "IsTransactionOrTransactionBlock w3"
  shows "fst (job_execute ext job w) = Inr True \<and>
         xact_calls (snd (job_execute ext job w)) =
           xact_calls w3
           @ (if \<not> ActiveSnapshotSet w1 \<and> ActiveSnapshotSet w3 then [XPopActiveSnapshot] else [])
           @ (if \<not> IsTransactionOrTransactionBlock w then [XCommitTransactionCommand] else [])"
proof -
  have p2: "db w2 = db w"
    by (simp add: w1 w2 pg_defs xact_defs)
  have l2: "LookupFuncName (proc_schema job) (proc_name job) (db w2) = Inr proc"
    using lookup p2 by simp
  have k2: "get_func_prokind proc (db w2) = Inr kind"
    using kind p2 by simp
  have enter: "job_execute ext job w =
      pg_bind (pg_get ActiveSnapshotSet) (\<lambda>still_set.
      pg_bind (pg_when (\<not> ActiveSnapshotSet w1 \<and> still_set) PopActiveSnapshot) (\<lambda>_.
      pg_bind (pg_when (\<not> IsTransactionOrTransactionBlock w) CommitTransactionCommand) (\<lambda>_.
      pg_return True))) w3"
    using callable l2 k2 run
    unfolding job_execute_def w1 w2
    by (auto simp: pg_defs xact_defs Let_def job_execute_function_def job_execute_procedure_def)
  show ?thesis
    unfolding enter using restarted
    by (auto simp: pg_defs xact_defs)
qed

text \<open>
  The same job run inside a transaction that the caller opened (a manual
  \<^verbatim>\<open>run_job\<close>): \<open>job_execute\<close> pushes a snapshot, the procedure pops it, commits
  and restarts, and \<open>job_execute\<close> neither pops nor commits.
\<close>

theorem C1_job_execute_frame_witness:
  "fst (job_execute committing_ext example_job (example_world\<lparr>xact_open := True\<rparr>)) = Inr True \<and>
   xact_calls (snd (job_execute committing_ext example_job (example_world\<lparr>xact_open := True\<rparr>))) =
     [XPushActiveSnapshot, XPopActiveSnapshot, XCommitTransactionCommand,
      XStartTransactionCommand]"
proof -
  let ?w = "example_world\<lparr>xact_open := True\<rparr>"
  let ?w1 = "snd (pg_when (\<not> IsTransactionOrTransactionBlock ?w) StartTransactionCommand ?w)"
  let ?w2 = "snd (pg_when (\<not> ActiveSnapshotSet ?w1) PushActiveSnapshot ?w1)"
  let ?w3 = "snd (commit_and_restart ?w2)"
  have lookup: "LookupFuncName (proc_schema example_job) (proc_name example_job) (db ?w) = Inr 4711"
    by (simp add: LookupFuncName_def example_defs)
  have kind: "get_func_prokind 4711 (db ?w) = Inr PROKIND_PROCEDURE"
    by (simp add: get_func_prokind_def example_defs)
  have callable: "PROKIND_PROCEDURE = PROKIND_FUNCTION \<and>
        ExecuteCallStmt committing_ext = ExecEvalExpr committing_ext \<or>
      PROKIND_PROCEDURE = PROKIND_PROCEDURE \<and>
        ExecuteCallStmt committing_ext = ExecuteCallStmt committing_ext"
    by simp
  have run: "ExecuteCallStmt committing_ext 4711 (fd_id example_job) (config example_job) ?w2
      = (Inr (), ?w3)"
    by (simp add: example_defs pg_defs xact_defs)
  have restarted: "IsTransactionOrTransactionBlock ?w3"
    by (simp add: example_defs pg_defs xact_defs)
  show ?thesis
    using C1_job_execute_frame [OF lookup kind callable refl refl run restarted]
    by (simp add: example_defs pg_defs xact_defs)
qed

subsection \<open>Fast restart\<close>

lemma enable_fast_restart_found:
  "bgw_job_stat w job_id = Some stat \<Longrightarrow>
   enable_fast_restart job_id nm w =
     (Inr (), w\<lparr>bgw_job_stat := (bgw_job_stat w)(job_id \<mapsto> stat\<lparr>next_start := last_start stat\<rparr>),
               server_log := server_log w @
                 [(DEBUG1, (''the %s job is scheduled to run again immediately'', [S nm]))]\<rparr>)"
  by (simp add: enable_fast_restart_def ts_bgw_job_stat_find_def
      ts_bgw_job_stat_set_next_start_def pg_then_def pg_bind_def elog_def)

lemma enable_fast_restart_missing:
  "bgw_job_stat w job_id = None \<Longrightarrow>
   enable_fast_restart job_id nm w =
     (Inr (), w\<lparr>bgw_job_stat := (bgw_job_stat w)(job_id \<mapsto>
                 \<lparr>last_start = DT_NOBEGIN, last_finish = DT_NOBEGIN,
                  next_start = xact_start_timestamp (db w)\<rparr>),
               server_log := server_log w @
                 [(DEBUG1, (''the %s job is scheduled to run again immediately'', [S nm]))]\<rparr>)"
  by (simp add: enable_fast_restart_def ts_bgw_job_stat_find_def
      ts_bgw_job_stat_upsert_next_start_def GetCurrentTransactionStartTimestamp_def
      pg_then_def pg_bind_def elog_def)

text \<open>
  Claim C5. When the fast-restart controller fires for a job: it succeeds; if the
  job has a JobStat row, the row's \<open>next_start\<close> becomes its \<open>last_start\<close> (and
  \<open>last_start\<close>, \<open>last_finish\<close> stay); if it has none, a row is created whose
  \<open>next_start\<close> is the start time of the current transaction.
\<close>

theorem C5_enable_fast_restart:
  "fst (enable_fast_restart job_id nm w) = Inr () \<and>
   bgw_job_stat (snd (enable_fast_restart job_id nm w)) job_id =
     (case bgw_job_stat w job_id of
        Some stat \<Rightarrow> Some (stat\<lparr>next_start := last_start stat\<rparr>)
      | None \<Rightarrow> Some \<lparr>last_start = DT_NOBEGIN, last_finish = DT_NOBEGIN,
                      next_start = GetCurrentTransactionStartTimestamp w\<rparr>)"
  by (cases "bgw_job_stat w job_id")
     (simp_all add: enable_fast_restart_found enable_fast_restart_missing
        GetCurrentTransactionStartTimestamp_def)

subsection \<open>Evaluating the examples\<close>

lemmas job_defs = refresh_policy_job_def admin_world_def no_alter_args_def
  inverted_window_config_def valid_window_config_def

lemma example_time_string_100: "example_time_string 100 t = ''100''"
  unfolding example_time_string_def by code_simp

lemma example_time_string_50: "example_time_string 50 t = ''50''"
  unfolding example_time_string_def by code_simp

lemmas lookup_defs = ts_hypertable_get_by_id_def ts_hypertable_id_to_relid_def
  ts_hypertable_cache_get_cache_and_entry_def hyperspace_get_open_dimension_def
  ts_dimension_get_partition_type_def ts_get_integer_now_func_def
  ts_continuous_agg_find_by_mat_hypertable_id_def get_namespace_oid_def
  get_relname_relid_def ts_chunk_get_by_id_def IS_INTEGER_TYPE_def INT2OID_def INT4OID_def
  INT8OID_def TIMESTAMPTZOID_def InvalidOid_def
lemmas field_defs = example_int_field_def example_interval_field_def example_string_field_def
lemmas check_defs = job_config_check_def namestrcmp_def NAMEDATALEN_def INTERNAL_SCHEMA_NAME_def

lemma refresh_inverted:
  "policy_refresh_cagg_read_and_validate_config example_ext inverted_window_config example_db =
     Inl (Ereport ERRCODE_INVALID_PARAMETER_VALUE (''invalid refresh window'', [])
           (Some (''start_offset: %s, end_offset: %s'', [S ''100'', S ''50'']))
           (Some (''The start of the window must be before the end.'', [])))"
  by (simp add: policy_refresh_cagg_read_and_validate_config_def
      get_open_dimension_for_hypertable_def lookup_defs field_defs job_defs
      example_ext_def example_db_def ebind_def Let_def
      example_time_string_100 example_time_string_50)

lemma check_inverted:
  "job_config_check example_ext ''_timescaledb_internal''
     ''policy_refresh_continuous_aggregate'' inverted_window_config example_db =
     Inl (Ereport ERRCODE_INVALID_PARAMETER_VALUE (''invalid refresh window'', [])
           (Some (''start_offset: %s, end_offset: %s'', [S ''100'', S ''50'']))
           (Some (''The start of the window must be before the end.'', [])))"
  by (simp add: check_defs refresh_inverted ebind_def)

lemma refresh_valid_stored:
  "job_config_check example_ext ''_timescaledb_internal''
     ''policy_refresh_continuous_aggregate''
     [(''mat_hypertable_id'', JNum 2), (''start_offset'', JNum 500), (''end_offset'', JNum 100)]
     example_db = Inr ()"
  by (simp add: check_defs policy_refresh_cagg_read_and_validate_config_def
      get_open_dimension_for_hypertable_def lookup_defs field_defs
      example_ext_def example_db_def ebind_def Let_def)

subsection \<open>Altering a job\<close>

lemma tuple_update_db:
  "db (snd (bgw_job_tuple_update_by_id ext k t uj w)) = db w"
  by (auto simp: bgw_job_tuple_update_by_id_def pg_defs stat_defs ts_catalog_update_def Let_def
      split: option.splits sum.splits if_splits prod.splits)

lemma tuple_update_jobs:
  "bgw_job (snd (bgw_job_tuple_update_by_id ext k t uj w)) =
     (if isl (fst (bgw_job_tuple_update_by_id ext k t uj w)) then bgw_job w
      else (bgw_job w)(k \<mapsto>
        t\<lparr>schedule_interval :=
             (if interval_eq (schedule_interval t) (schedule_interval uj)
              then schedule_interval t else schedule_interval uj),
           max_runtime := max_runtime uj, max_retries := max_retries uj,
           retry_period := retry_period uj, scheduled := scheduled uj,
           config := config uj\<rparr>))"
  by (auto simp: bgw_job_tuple_update_by_id_def pg_defs stat_defs ts_catalog_update_def Let_def
      split: option.splits sum.splits if_splits prod.splits)

lemma tuple_update_invalid_config:
  "config uj = Some cfg \<Longrightarrow>
   job_config_check ext (proc_schema uj) (proc_name uj) cfg (db w) = Inl e \<Longrightarrow>
   isl (fst (bgw_job_tuple_update_by_id ext k t uj w))"
  by (auto simp: bgw_job_tuple_update_by_id_def pg_defs stat_defs ts_catalog_update_def Let_def
      split: option.splits sum.splits if_splits prod.splits)

lemma tuple_update_stats:
  "bgw_job_stat (snd (bgw_job_tuple_update_by_id ext k t uj w)) =
     (if interval_eq (schedule_interval t) (schedule_interval uj) then bgw_job_stat w
      else case bgw_job_stat w (fd_id uj) of
             None \<Rightarrow> bgw_job_stat w
           | Some st \<Rightarrow>
               (case timestamptz_pl_interval ext (last_finish st) (schedule_interval uj) of
                  Inl _ \<Rightarrow> bgw_job_stat w
                | Inr n \<Rightarrow> (bgw_job_stat w)(fd_id uj \<mapsto> st\<lparr>next_start := n\<rparr>)))"
  by (auto simp: bgw_job_tuple_update_by_id_def pg_defs stat_defs ts_catalog_update_def Let_def
      split: option.splits sum.splits if_splits prod.splits)

lemma tuple_update_pl_raises:
  "\<not> interval_eq (schedule_interval t) (schedule_interval uj) \<Longrightarrow>
   bgw_job_stat w (fd_id uj) = Some st \<Longrightarrow>
   timestamptz_pl_interval ext (last_finish st) (schedule_interval uj) = Inl e \<Longrightarrow>
   isl (fst (bgw_job_tuple_update_by_id ext k t uj w))"
  by (auto simp: bgw_job_tuple_update_by_id_def pg_defs stat_defs ts_catalog_update_def Let_def
      split: option.splits sum.splits if_splits prod.splits)

text \<open>The scan, by whether the row exists.\<close>

lemma update_by_id_found:
  "bgw_job w jid = Some t \<Longrightarrow>
   ts_bgw_job_update_by_id ext jid job w =
     (map_sum id (\<lambda>_. ()) (fst (bgw_job_tuple_update_by_id ext jid t job w)),
      snd (bgw_job_tuple_update_by_id ext jid t job w))"
  by (auto simp: ts_bgw_job_update_by_id_def pg_then_def pg_bind_def pg_return_def
      split: sum.splits prod.splits)

lemma update_by_id_missing:
  "bgw_job w jid = None \<Longrightarrow> ts_bgw_job_update_by_id ext jid job w = (Inr (), w)"
  by (simp add: ts_bgw_job_update_by_id_def)

lemma update_by_id_jobs:
  "bgw_job (snd (ts_bgw_job_update_by_id ext jid job w)) =
     (case bgw_job w jid of
        None \<Rightarrow> bgw_job w
      | Some t \<Rightarrow>
          if isl (fst (ts_bgw_job_update_by_id ext jid job w)) then bgw_job w
          else (bgw_job w)(jid \<mapsto>
            t\<lparr>schedule_interval :=
                 (if interval_eq (schedule_interval t) (schedule_interval job)
                  then schedule_interval t else schedule_interval job),
               max_runtime := max_runtime job, max_retries := max_retries job,
               retry_period := retry_period job, scheduled := scheduled job,
               config := config job\<rparr>))"
proof (cases "bgw_job w jid")
  case None
  then show ?thesis by (simp add: update_by_id_missing)
next
  case (Some t)
  then show ?thesis
    by (simp add: update_by_id_found tuple_update_jobs isl_map_sum)
qed

lemma update_by_id_stats:
  "bgw_job_stat (snd (ts_bgw_job_update_by_id ext jid job w)) =
     (case bgw_job w jid of
        None \<Rightarrow> bgw_job_stat w
      | Some t \<Rightarrow>
          if interval_eq (schedule_interval t) (schedule_interval job) then bgw_job_stat w
          else case bgw_job_stat w (fd_id job) of
                 None \<Rightarrow> bgw_job_stat w
               | Some st \<Rightarrow>
                   (case timestamptz_pl_interval ext (last_finish st) (schedule_interval job) of
                      Inl _ \<Rightarrow> bgw_job_stat w
                    | Inr n \<Rightarrow> (bgw_job_stat w)(fd_id job \<mapsto> st\<lparr>next_start := n\<rparr>)))"
proof (cases "bgw_job w jid")
  case None
  then show ?thesis by (simp add: update_by_id_missing)
next
  case (Some t)
  then show ?thesis
    by (simp add: update_by_id_found tuple_update_stats)
qed

lemma update_by_id_invalid_config:
  "bgw_job w jid = Some t \<Longrightarrow> config job = Some cfg \<Longrightarrow>
   job_config_check ext (proc_schema job) (proc_name job) cfg (db w) = Inl e \<Longrightarrow>
   isl (fst (ts_bgw_job_update_by_id ext jid job w))"
  by (simp add: update_by_id_found tuple_update_invalid_config isl_map_sum)

lemma update_by_id_raise_jobs:
  "ts_bgw_job_update_by_id ext jid job w = (Inl e, w') \<Longrightarrow> bgw_job w' = bgw_job w"
  using update_by_id_jobs [of ext jid job w] by (simp split: option.splits)

lemmas alter_defs = job_alter_def Let_def pg_defs find_job_def ts_bgw_job_find_def
  TS_PREVENT_FUNC_IF_READ_ONLY_def ts_bgw_job_stat_find_def
  ts_bgw_job_stat_upsert_next_start_def

lemma job_alter_raise_jobs:
  "job_alter ext args w = (Inl e, w') \<Longrightarrow> bgw_job w' = bgw_job w"
  by (auto simp: alter_defs dest!: update_by_id_raise_jobs
      split: option.splits sum.splits prod.splits if_splits)

lemma set_fields_proc [simp]:
  "proc_schema (job_alter_set_fields args j) = proc_schema j"
  "proc_name (job_alter_set_fields args j) = proc_name j"
  "fd_id (job_alter_set_fields args j) = fd_id j"
  by (simp_all add: job_alter_set_fields_def Let_def split: option.splits)

lemma set_fields_config:
  "arg_config args = Some cfg \<Longrightarrow> config (job_alter_set_fields args j) = Some cfg"
  by (simp add: job_alter_set_fields_def Let_def split: option.splits)

lemma set_fields_interval:
  "schedule_interval (job_alter_set_fields args j) =
     (case arg_schedule_interval args of None \<Rightarrow> schedule_interval j | Some v \<Rightarrow> v)"
  by (simp add: job_alter_set_fields_def Let_def split: option.splits)

lemma set_fields_none:
  "arg_schedule_interval args = None \<Longrightarrow> arg_max_runtime args = None \<Longrightarrow>
   arg_max_retries args = None \<Longrightarrow> arg_retry_period args = None \<Longrightarrow>
   arg_scheduled args = None \<Longrightarrow> arg_config args = None \<Longrightarrow>
   job_alter_set_fields args j = j"
  by (simp add: job_alter_set_fields_def)

lemma job_alter_invalid_config_raises:
  assumes cfg: "arg_config args = Some cfg"
    and found: "bgw_job w (PG_GETARG_INT32 (arg_job_id args)) = Some job"
    and invalid: "job_config_check ext (proc_schema job) (proc_name job) cfg (db w) = Inl e"
  shows "isl (fst (job_alter ext args w))"
proof -
  let ?jid = "PG_GETARG_INT32 (arg_job_id args)"
  have upd: "isl (fst (ts_bgw_job_update_by_id ext ?jid (job_alter_set_fields args job) w))"
    using update_by_id_invalid_config [OF found set_fields_config [OF cfg]] invalid by simp
  show ?thesis
    using found upd
    by (auto simp: alter_defs split: option.splits sum.splits prod.splits if_splits)
qed

lemma update_by_id_db:
  "db (snd (ts_bgw_job_update_by_id ext jid job w)) = db w"
  by (cases "bgw_job w jid") (simp_all add: update_by_id_missing update_by_id_found tuple_update_db)

lemma update_by_id_result:
  assumes "ts_bgw_job_update_by_id ext jid job w = (r, w')"
  shows "bgw_job w' =
     (case bgw_job w jid of
        None \<Rightarrow> bgw_job w
      | Some t \<Rightarrow>
          if isl r then bgw_job w
          else (bgw_job w)(jid \<mapsto>
            t\<lparr>schedule_interval :=
                 (if interval_eq (schedule_interval t) (schedule_interval job)
                  then schedule_interval t else schedule_interval job),
               max_runtime := max_runtime job, max_retries := max_retries job,
               retry_period := retry_period job, scheduled := scheduled job,
               config := config job\<rparr>)) \<and>
    bgw_job_stat w' =
     (case bgw_job w jid of
        None \<Rightarrow> bgw_job_stat w
      | Some t \<Rightarrow>
          if interval_eq (schedule_interval t) (schedule_interval job) then bgw_job_stat w
          else case bgw_job_stat w (fd_id job) of
                 None \<Rightarrow> bgw_job_stat w
               | Some st \<Rightarrow>
                   (case timestamptz_pl_interval ext (last_finish st) (schedule_interval job) of
                      Inl _ \<Rightarrow> bgw_job_stat w
                    | Inr n \<Rightarrow> (bgw_job_stat w)(fd_id job \<mapsto> st\<lparr>next_start := n\<rparr>)))"
proof -
  have f: "fst (ts_bgw_job_update_by_id ext jid job w) = r"
    and s: "snd (ts_bgw_job_update_by_id ext jid job w) = w'"
    using assms by simp_all
  show ?thesis
    using update_by_id_jobs [of ext jid job w] update_by_id_stats [of ext jid job w]
    unfolding f s by simp
qed

lemma interval_eq_refl [simp]: "interval_eq i i"
  by (simp add: interval_eq_def)

lemma job_alter_ok_stats:
  assumes ok: "fst (job_alter ext args w) = Inr r"
    and nostart: "arg_next_start args = None"
    and found: "bgw_job w (PG_GETARG_INT32 (arg_job_id args)) = Some job0"
  shows "bgw_job_stat (snd (job_alter ext args w)) =
           bgw_job_stat (snd (ts_bgw_job_update_by_id ext (PG_GETARG_INT32 (arg_job_id args))
                                (job_alter_set_fields args job0) w)) \<and>
         \<not> isl (fst (ts_bgw_job_update_by_id ext (PG_GETARG_INT32 (arg_job_id args))
                                (job_alter_set_fields args job0) w))"
  using assms
  by (auto simp: alter_defs split: option.splits sum.splits prod.splits if_splits)

lemmas alter_eval = alter_defs job_alter_set_fields_def PG_GETARG_INT32_def
  ts_bgw_job_update_by_id_def bgw_job_tuple_update_by_id_def ts_catalog_update_def
  ts_bgw_job_stat_update_next_start_def interval_eq_def interval_cmp_value_def
  USECS_PER_DAY_def DT_NOBEGIN_def

lemma alter_1000_ok:
  "fst (job_alter example_ext (no_alter_args\<lparr>arg_job_id := Some 1000,
          arg_schedule_interval := Some two_hours\<rparr>) admin_world) =
   Inr (Some \<lparr>out_job_id = 1000, out_schedule_interval = two_hours,
               out_max_runtime = \<lparr>time = 0, day = 0, month = 0\<rparr>, out_max_retries = - 1,
               out_retry_period = \<lparr>time = 300000000, day = 0, month = 0\<rparr>,
               out_scheduled = True, out_config = None, out_next_start = 7200000800\<rparr>)"
  by (simp add: alter_eval job_defs example_defs two_hours_def)

lemma alter_1001_ok:
  "isl (fst (job_alter example_ext (no_alter_args\<lparr>arg_schedule_interval := Some two_hours\<rparr>)
          admin_world)) = False"
  using refresh_valid_stored
  by (simp add: alter_eval job_defs example_world_def example_job_def two_hours_def
      example_ext_def)

text \<open>
  Claim C2. An Alter call that supplies a new config which the validator of the
  job's callable rejects raises, and the job table at the raise is the job
  table before the call: the config is validated before the row is written,
  and the row is written in one step, so no field of the Job row is changed.
  (The arguments \<open>max_retries\<close>, \<open>scheduled\<close> and the others given in the same
  call are not written either.)
\<close>

theorem C2_alter_invalid_config:
  assumes cfg: "arg_config args = Some cfg"
    and found: "bgw_job w (PG_GETARG_INT32 (arg_job_id args)) = Some job"
    and invalid: "job_config_check ext (proc_schema job) (proc_name job) cfg (db w) = Inl e"
  shows "isl (fst (job_alter ext args w)) \<and>
         bgw_job (snd (job_alter ext args w)) = bgw_job w"
proof -
  have fails: "isl (fst (job_alter ext args w))"
    using job_alter_invalid_config_raises [OF cfg found invalid] .
  obtain r w' where rw: "job_alter ext args w = (r, w')"
    by (cases "job_alter ext args w")
  with fails obtain e' where "r = Inl e'"
    by (cases r) auto
  with rw show ?thesis
    using job_alter_raise_jobs [of ext args w e' w'] fails by simp
qed

text \<open>
  An Alter of job 1001 with \<open>max_retries\<close>, \<open>scheduled\<close> and a refresh window
  from 100 to 50: the validator rejects the window and the job table is as it
  was.
\<close>

theorem C2_alter_invalid_config_witness:
  "arg_config (no_alter_args\<lparr>arg_max_retries := Some 5, arg_scheduled := Some False,
        arg_config := Some inverted_window_config\<rparr>) = Some inverted_window_config \<and>
   isl (job_config_check example_ext (proc_schema refresh_policy_job)
          (proc_name refresh_policy_job) inverted_window_config (db admin_world)) \<and>
   isl (fst (job_alter example_ext
          (no_alter_args\<lparr>arg_max_retries := Some 5, arg_scheduled := Some False,
             arg_config := Some inverted_window_config\<rparr>) admin_world)) \<and>
   bgw_job (snd (job_alter example_ext
          (no_alter_args\<lparr>arg_max_retries := Some 5, arg_scheduled := Some False,
             arg_config := Some inverted_window_config\<rparr>) admin_world)) = bgw_job admin_world"
proof -
  let ?args = "no_alter_args\<lparr>arg_max_retries := Some 5, arg_scheduled := Some False,
                 arg_config := Some inverted_window_config\<rparr>"
  have cfg: "arg_config ?args = Some inverted_window_config"
    by simp
  have found: "bgw_job admin_world (PG_GETARG_INT32 (arg_job_id ?args)) = Some refresh_policy_job"
    by (simp add: no_alter_args_def admin_world_def PG_GETARG_INT32_def)
  have invalid: "job_config_check example_ext (proc_schema refresh_policy_job)
      (proc_name refresh_policy_job) inverted_window_config (db admin_world) =
      Inl (Ereport ERRCODE_INVALID_PARAMETER_VALUE (''invalid refresh window'', [])
           (Some (''start_offset: %s, end_offset: %s'', [S ''100'', S ''50'']))
           (Some (''The start of the window must be before the end.'', [])))"
    using check_inverted by (simp add: refresh_policy_job_def admin_world_def example_world_def)
  show ?thesis
    using C2_alter_invalid_config [OF cfg found invalid] cfg invalid by simp
qed

text \<open>
  Claim C3, as stated, at job 1001, which has never finished
  (\<open>last_finish = DT_NOBEGIN\<close>) and whose \<open>next_start\<close> was seeded with 4200:
  an Alter to a schedule interval of two hours succeeds, the sum of
  \<open>last_finish\<close> and the interval is the sentinel, and \<open>next_start\<close> is not
  left as it was: the sentinel is stored over 4200.
\<close>

theorem C3_sentinel_overwrites_counterexample:
  "bgw_job_stat admin_world 1001 =
     Some \<lparr>last_start = DT_NOBEGIN, last_finish = DT_NOBEGIN, next_start = 4200\<rparr> \<and>
   timestamptz_pl_interval example_ext DT_NOBEGIN two_hours = Inr DT_NOBEGIN \<and>
   \<not> isl (fst (job_alter example_ext (no_alter_args\<lparr>arg_schedule_interval := Some two_hours\<rparr>)
          admin_world)) \<and>
   bgw_job_stat (snd (job_alter example_ext
       (no_alter_args\<lparr>arg_schedule_interval := Some two_hours\<rparr>) admin_world)) 1001 =
     Some \<lparr>last_start = DT_NOBEGIN, last_finish = DT_NOBEGIN, next_start = DT_NOBEGIN\<rparr> \<and>
   bgw_job_stat (snd (job_alter example_ext
       (no_alter_args\<lparr>arg_schedule_interval := Some two_hours\<rparr>) admin_world)) 1001 \<noteq>
     bgw_job_stat admin_world 1001"
  using refresh_valid_stored
  by (simp add: alter_eval job_defs example_world_def example_job_def two_hours_def
      example_ext_def)

text \<open>
  Claim C3, amended. Let an Alter call that gives a schedule interval \<open>I\<close> and
  no \<open>next_start\<close> succeed on an existing job. If the job has no JobStat row,
  or \<open>I\<close> equals the stored interval (by PostgreSQL's interval equality), the
  job statistics are as they were: \<open>next_start\<close> is not recomputed. Otherwise
  the sum \<open>n\<close> of the row's \<open>last_finish\<close> and \<open>I\<close> was computed and the row's
  \<open>next_start\<close> is \<open>n\<close>, whatever it was before. There is no exception for
  the sentinel: when \<open>n\<close> is \<open>DT_NOBEGIN\<close> it is stored as well, and the row
  then reads as "not set".
\<close>

theorem C3_alter_schedule_interval:
  assumes jid: "arg_job_id args = Some jid"
    and ival: "arg_schedule_interval args = Some I"
    and nostart: "arg_next_start args = None"
    and found: "bgw_job w jid = Some job"
    and key: "fd_id job = jid"
    and ok: "fst (job_alter ext args w) = Inr r"
  shows "case bgw_job_stat w jid of
           None \<Rightarrow> bgw_job_stat (snd (job_alter ext args w)) = bgw_job_stat w
         | Some st \<Rightarrow>
             if interval_eq (schedule_interval job) I
             then bgw_job_stat (snd (job_alter ext args w)) = bgw_job_stat w
             else \<exists>n. timestamptz_pl_interval ext (last_finish st) I = Inr n \<and>
                      bgw_job_stat (snd (job_alter ext args w)) =
                        (bgw_job_stat w)(jid \<mapsto> st\<lparr>next_start := n\<rparr>)"
proof -
  let ?J = "job_alter_set_fields args job"
  have g: "PG_GETARG_INT32 (arg_job_id args) = jid"
    using jid by (simp add: PG_GETARG_INT32_def)
  have JI: "schedule_interval ?J = I" "fd_id ?J = jid"
    using ival key by (simp_all add: set_fields_interval)
  from job_alter_ok_stats [OF ok nostart] found g
  have st: "bgw_job_stat (snd (job_alter ext args w)) =
              bgw_job_stat (snd (ts_bgw_job_update_by_id ext jid ?J w))"
    and nf: "\<not> isl (fst (ts_bgw_job_update_by_id ext jid ?J w))"
    by simp_all
  have nf': "\<not> isl (fst (bgw_job_tuple_update_by_id ext jid job ?J w))"
    using nf found by (simp add: update_by_id_found isl_map_sum)
  show ?thesis
  proof (cases "bgw_job_stat w jid")
    case None
    then show ?thesis
      using st found JI by (simp add: update_by_id_stats)
  next
    case (Some s)
    show ?thesis
    proof (cases "interval_eq (schedule_interval job) I")
      case True
      then show ?thesis
        using st found JI Some by (simp add: update_by_id_stats)
    next
      case False
      have "\<not> isl (timestamptz_pl_interval ext (last_finish s) I)"
      proof
        assume "isl (timestamptz_pl_interval ext (last_finish s) I)"
        then obtain e where "timestamptz_pl_interval ext (last_finish s) I = Inl e"
          by (cases "timestamptz_pl_interval ext (last_finish s) I") auto
        then have "isl (fst (bgw_job_tuple_update_by_id ext jid job ?J w))"
          using tuple_update_pl_raises [of job ?J w s ext e jid] False Some JI by simp
        with nf' show False by simp
      qed
      then obtain n where n: "timestamptz_pl_interval ext (last_finish s) I = Inr n"
        by (cases "timestamptz_pl_interval ext (last_finish s) I") auto
      then show ?thesis
        using st found JI Some False by (simp add: update_by_id_stats)
    qed
  qed
qed

text \<open>
  Job 1000 finished last at 800: a new interval of two hours gives
  \<open>next_start = 800 + 7200000000\<close>. Job 1001 has never finished
  (\<open>last_finish = DT_NOBEGIN\<close>): the sum is the sentinel and \<open>next_start\<close> is
  the sentinel afterwards.
\<close>

theorem C3_alter_schedule_interval_witness:
  "\<not> interval_eq (schedule_interval example_job) two_hours \<and>
   bgw_job_stat admin_world 1000 =
     Some \<lparr>last_start = 700, last_finish = 800, next_start = 4400\<rparr> \<and>
   bgw_job_stat (snd (job_alter example_ext
       (no_alter_args\<lparr>arg_job_id := Some 1000, arg_schedule_interval := Some two_hours\<rparr>)
       admin_world)) 1000 =
     Some \<lparr>last_start = 700, last_finish = 800, next_start = 800 + 7200000000\<rparr> \<and>
   bgw_job_stat admin_world 1001 =
     Some \<lparr>last_start = DT_NOBEGIN, last_finish = DT_NOBEGIN, next_start = 4200\<rparr> \<and>
   bgw_job_stat (snd (job_alter example_ext
       (no_alter_args\<lparr>arg_schedule_interval := Some two_hours\<rparr>) admin_world)) 1001 =
     Some \<lparr>last_start = DT_NOBEGIN, last_finish = DT_NOBEGIN, next_start = DT_NOBEGIN\<rparr>"
proof -
  let ?a0 = "no_alter_args\<lparr>arg_job_id := Some 1000, arg_schedule_interval := Some two_hours\<rparr>"
  let ?a1 = "no_alter_args\<lparr>arg_schedule_interval := Some two_hours\<rparr>"
  have changed0: "\<not> interval_eq (schedule_interval example_job) two_hours"
    by (simp add: interval_eq_def interval_cmp_value_def example_job_def two_hours_def)
  have changed1: "\<not> interval_eq (schedule_interval refresh_policy_job) two_hours"
    by (simp add: interval_eq_def interval_cmp_value_def refresh_policy_job_def two_hours_def)
  have stat0: "bgw_job_stat admin_world 1000 =
      Some \<lparr>last_start = 700, last_finish = 800, next_start = 4400\<rparr>"
    and stat1: "bgw_job_stat admin_world 1001 =
      Some \<lparr>last_start = DT_NOBEGIN, last_finish = DT_NOBEGIN, next_start = 4200\<rparr>"
    by (simp_all add: admin_world_def)
  have plus0: "timestamptz_pl_interval example_ext 800 two_hours = Inr (800 + 7200000000)"
    and plus1: "timestamptz_pl_interval example_ext DT_NOBEGIN two_hours = Inr DT_NOBEGIN"
    by (simp_all add: example_ext_def interval_cmp_value_def two_hours_def DT_NOBEGIN_def)
  obtain r0 where ok0: "fst (job_alter example_ext ?a0 admin_world) = Inr r0"
    using alter_1000_ok by simp
  obtain r1 where ok1: "fst (job_alter example_ext ?a1 admin_world) = Inr r1"
    using alter_1001_ok by (cases "fst (job_alter example_ext ?a1 admin_world)") auto
  have res0: "bgw_job_stat (snd (job_alter example_ext ?a0 admin_world)) =
      (bgw_job_stat admin_world)(1000 \<mapsto>
         \<lparr>last_start = 700, last_finish = 800, next_start = 800 + 7200000000\<rparr>)"
    using C3_alter_schedule_interval [of ?a0 1000 two_hours admin_world example_job
        example_ext r0] ok0 changed0 stat0 plus0
    by (simp add: no_alter_args_def admin_world_def example_job_def)
  have res1: "bgw_job_stat (snd (job_alter example_ext ?a1 admin_world)) =
      (bgw_job_stat admin_world)(1001 \<mapsto>
         \<lparr>last_start = DT_NOBEGIN, last_finish = DT_NOBEGIN, next_start = DT_NOBEGIN\<rparr>)"
    using C3_alter_schedule_interval [of ?a1 1001 two_hours admin_world refresh_policy_job
        example_ext r1] ok1 changed1 stat1 plus1
    by (simp add: no_alter_args_def admin_world_def refresh_policy_job_def)
  show ?thesis
    using changed0 stat0 stat1 res0 res1 by simp
qed


text \<open>
  Claim C9. An Alter call with every optional field omitted leaves the job
  table and the job statistics as they were, whether it returns or raises: no
  field of the Job row changes and \<open>next_start\<close> is not recomputed.
\<close>

theorem C9_alter_nothing:
  assumes "arg_schedule_interval args = None" and "arg_max_runtime args = None"
    and "arg_max_retries args = None" and "arg_retry_period args = None"
    and "arg_scheduled args = None" and "arg_config args = None"
    and "arg_next_start args = None"
  shows "bgw_job (snd (job_alter ext args w)) = bgw_job w \<and>
         bgw_job_stat (snd (job_alter ext args w)) = bgw_job_stat w"
proof -
  have same: "\<And>j. job_alter_set_fields args j = j"
    using assms by (simp add: set_fields_none)
  have row: "\<And>t::BgwJob. t\<lparr>schedule_interval := schedule_interval t, max_runtime := max_runtime t,
      max_retries := max_retries t, retry_period := retry_period t,
      scheduled := scheduled t, config := config t\<rparr> = t"
    by simp
  show ?thesis
    using assms(7)
    by (auto simp: alter_defs same row map_upd_triv dest!: update_by_id_result
        split: option.splits sum.splits prod.splits if_splits)
qed

theorem C9_alter_nothing_witness:
  "arg_schedule_interval no_alter_args = None \<and> arg_max_runtime no_alter_args = None \<and>
   arg_max_retries no_alter_args = None \<and> arg_retry_period no_alter_args = None \<and>
   arg_scheduled no_alter_args = None \<and> arg_config no_alter_args = None \<and>
   arg_next_start no_alter_args = None \<and>
   bgw_job (snd (job_alter example_ext no_alter_args admin_world)) = bgw_job admin_world \<and>
   bgw_job_stat (snd (job_alter example_ext no_alter_args admin_world)) =
     bgw_job_stat admin_world"
proof -
  have n: "arg_schedule_interval no_alter_args = None" "arg_max_runtime no_alter_args = None"
    "arg_max_retries no_alter_args = None" "arg_retry_period no_alter_args = None"
    "arg_scheduled no_alter_args = None" "arg_config no_alter_args = None"
    "arg_next_start no_alter_args = None"
    by (simp_all add: no_alter_args_def)
  show ?thesis
    using C9_alter_nothing [OF n, of example_ext admin_world] n by simp
qed

subsection \<open>Validating a config\<close>

text \<open>
  Claim C4. When the config of a refresh policy resolves to a materialization
  hypertable with its dimension and to a refresh window from \<open>refresh_start\<close> to
  \<open>refresh_end\<close>, Read+Validate fails with \<open>ERRCODE_INVALID_PARAMETER_VALUE\<close>
  if \<open>refresh_start \<ge> refresh_end\<close>, and the error's detail carries both
  boundary values as time strings; it succeeds, with that window, if
  \<open>refresh_start < refresh_end\<close>.
\<close>

theorem C4_refresh_window:
  assumes mid: "policy_continuous_aggregate_get_mat_hypertable_id ext cfg = Inr mid"
    and dim: "get_open_dimension_for_hypertable ext (ts_hypertable_get_by_id mid d) d = Inr dim"
    and rs: "policy_refresh_cagg_get_refresh_start ext d dim cfg = Inr refresh_start"
    and re: "policy_refresh_cagg_get_refresh_end ext d dim cfg = Inr refresh_end"
  shows "policy_refresh_cagg_read_and_validate_config ext cfg d =
     (if refresh_start \<ge> refresh_end
      then Inl (Ereport ERRCODE_INVALID_PARAMETER_VALUE
             (''invalid refresh window'', [])
             (Some (''start_offset: %s, end_offset: %s'',
                    [S (ts_internal_to_time_string ext refresh_start
                          (ts_dimension_get_partition_type dim)),
                     S (ts_internal_to_time_string ext refresh_end
                          (ts_dimension_get_partition_type dim))]))
             (Some (''The start of the window must be before the end.'', [])))
      else Inr \<lparr>refresh_window_type = ts_dimension_get_partition_type dim,
                refresh_window_start = refresh_start,
                refresh_window_end = refresh_end,
                cagg = ts_continuous_agg_find_by_mat_hypertable_id mid d\<rparr>)"
  using assms
  by (simp add: policy_refresh_cagg_read_and_validate_config_def ebind_def Let_def)

lemma example_refresh_dim:
  "get_open_dimension_for_hypertable example_ext (ts_hypertable_get_by_id 2 example_db)
     example_db =
   Inr \<lparr>dim_id = 2, dim_type = DIMENSION_TYPE_OPEN, partition_type = TIMESTAMPTZOID,
        integer_now_func = 0\<rparr>"
  by (simp add: get_open_dimension_for_hypertable_def lookup_defs example_ext_def
      example_db_def Let_def)

text \<open>The window from 100 to 50 is refused, naming 100 and 50; from 50 to 100 is accepted.\<close>

theorem C4_refresh_window_witness:
  "policy_refresh_cagg_read_and_validate_config example_ext inverted_window_config example_db =
     Inl (Ereport ERRCODE_INVALID_PARAMETER_VALUE (''invalid refresh window'', [])
           (Some (''start_offset: %s, end_offset: %s'', [S ''100'', S ''50'']))
           (Some (''The start of the window must be before the end.'', []))) \<and>
   policy_refresh_cagg_read_and_validate_config example_ext valid_window_config example_db =
     Inr \<lparr>refresh_window_type = TIMESTAMPTZOID, refresh_window_start = 50,
          refresh_window_end = 100,
          cagg = Some \<lparr>mat_hypertable_id = 2, raw_hypertable_id = 1,
                       user_view_schema = ''public'', user_view_name = ''my_view''\<rparr>\<rparr>"
proof -
  let ?dim = "\<lparr>dim_id = 2, dim_type = DIMENSION_TYPE_OPEN, partition_type = TIMESTAMPTZOID,
        integer_now_func = 0\<rparr>"
  have mid1: "policy_continuous_aggregate_get_mat_hypertable_id example_ext
      inverted_window_config = Inr 2"
    and mid2: "policy_continuous_aggregate_get_mat_hypertable_id example_ext
      valid_window_config = Inr 2"
    by (simp_all add: example_ext_def field_defs job_defs)
  have s1: "policy_refresh_cagg_get_refresh_start example_ext example_db ?dim
      inverted_window_config = Inr 100"
    and e1: "policy_refresh_cagg_get_refresh_end example_ext example_db ?dim
      inverted_window_config = Inr 50"
    and s2: "policy_refresh_cagg_get_refresh_start example_ext example_db ?dim
      valid_window_config = Inr 50"
    and e2: "policy_refresh_cagg_get_refresh_end example_ext example_db ?dim
      valid_window_config = Inr 100"
    by (simp_all add: example_ext_def example_db_def field_defs job_defs ebind_def)
  have str: "ts_internal_to_time_string example_ext 100 TIMESTAMPTZOID = ''100''"
    "ts_internal_to_time_string example_ext 50 TIMESTAMPTZOID = ''50''"
    by (simp_all add: example_ext_def example_time_string_100 example_time_string_50)
  have cagg: "ts_continuous_agg_find_by_mat_hypertable_id 2 example_db =
      Some \<lparr>mat_hypertable_id = 2, raw_hypertable_id = 1,
            user_view_schema = ''public'', user_view_name = ''my_view''\<rparr>"
    by (simp add: ts_continuous_agg_find_by_mat_hypertable_id_def example_db_def)
  show ?thesis
    using C4_refresh_window [OF mid1 example_refresh_dim s1 e1]
          C4_refresh_window [OF mid2 example_refresh_dim s2 e2] str cagg
    by (simp add: ts_dimension_get_partition_type_def)
qed

lemma cache_entry_relid:
  "ts_hypertable_cache_get_cache_and_entry relid d = Inr ht \<Longrightarrow> main_table_relid ht = relid"
  by (auto simp: ts_hypertable_cache_get_cache_and_entry_def find_Some_iff
      split: option.splits)

text \<open>
  Claim C7. Let a retention policy run successfully on a config whose hypertable
  id resolves to the hypertable \<open>ht\<close>. The run asks the storage layer for one
  drop. If \<open>ht\<close> is the materialization hypertable of a continuous aggregate
  (found by reverse lookup on \<open>ht\<close>'s id), the drop is against the relation
  that the aggregate's user view name resolves to in the view's schema, not
  against \<open>ht\<close>'s own relation; if \<open>ht\<close> backs no continuous aggregate, the
  drop is against \<open>ht\<close>'s own relation.
\<close>

theorem C7_retention_target:
  assumes htid: "policy_retention_get_hypertable_id ext cfg = Inr htid"
    and ht: "ts_hypertable_cache_get_cache_and_entry
               (ts_hypertable_id_to_relid htid (db w)) (db w) = Inr ht"
    and ok: "fst (policy_retention_execute ext job_id cfg w) = Inr r"
  shows "case ts_continuous_agg_find_by_mat_hypertable_id (ht_id ht) (db w) of
           None \<Rightarrow>
             \<exists>bnd typ. storage_actions (db (snd (policy_retention_execute ext job_id cfg w))) =
               storage_actions (db w) @ [DropChunks (main_table_relid ht) bnd typ]
         | Some ca \<Rightarrow>
             \<exists>nsp bnd typ.
               get_namespace_oid (user_view_schema ca) (db w) = Inr nsp \<and>
               storage_actions (db (snd (policy_retention_execute ext job_id cfg w))) =
                 storage_actions (db w) @
                 [DropChunks (get_relname_relid (user_view_name ca) nsp (db w)) bnd typ]"
  using assms cache_entry_relid [OF ht]
  by (auto simp: policy_retention_execute_def policy_retention_read_and_validate_config_def
      chunk_invoke_drop_chunks_def pg_defs Let_def
      split: option.splits sum.splits prod.splits if_splits)

lemmas retention_eval = policy_retention_execute_def
  policy_retention_read_and_validate_config_def get_open_dimension_for_hypertable_def
  get_window_boundary_def chunk_invoke_drop_chunks_def lookup_defs field_defs pg_defs
  retention_config_def example_defs Let_def

lemma retention_on_materialization:
  "policy_retention_execute example_ext 1000 (retention_config 2) example_world =
     (Inr True, example_world\<lparr>db := example_db\<lparr>storage_actions :=
        [DropChunks 7001 700 TIMESTAMPTZOID]\<rparr>\<rparr>)"
  by (simp add: retention_eval)

lemma retention_on_hypertable:
  "policy_retention_execute example_ext 1000 (retention_config 1) example_world =
     (Inr True, example_world\<lparr>db := example_db\<lparr>storage_actions :=
        [DropChunks 5001 700 TIMESTAMPTZOID]\<rparr>\<rparr>)"
  by (simp add: retention_eval)

text \<open>
  Hypertable 2 (relation 5002) is the materialization of the view \<open>my_view\<close>
  (relation 7001): the drop goes to 7001. Hypertable 1 (relation 5001) backs no
  view: the drop goes to 5001.
\<close>

theorem C7_retention_target_witness:
  "ts_hypertable_id_to_relid 2 (db example_world) = 5002 \<and>
   storage_actions (db (snd (policy_retention_execute example_ext 1000 (retention_config 2)
      example_world))) = [DropChunks 7001 700 TIMESTAMPTZOID] \<and>
   ts_hypertable_id_to_relid 1 (db example_world) = 5001 \<and>
   storage_actions (db (snd (policy_retention_execute example_ext 1000 (retention_config 1)
      example_world))) = [DropChunks 5001 700 TIMESTAMPTZOID]"
proof -
  let ?ht1 = "\<lparr>ht_id = 1, schema_name = ''public'', table_name = ''conditions'',
         main_table_relid = 5001,
         space = [\<lparr>dim_id = 1, dim_type = DIMENSION_TYPE_OPEN,
                   partition_type = TIMESTAMPTZOID, integer_now_func = 0\<rparr>]\<rparr>"
  let ?ht2 = "\<lparr>ht_id = 2, schema_name = ''_timescaledb_internal'',
         table_name = ''_materialized_hypertable_2'', main_table_relid = 5002,
         space = [\<lparr>dim_id = 2, dim_type = DIMENSION_TYPE_OPEN,
                   partition_type = TIMESTAMPTZOID, integer_now_func = 0\<rparr>]\<rparr>"
  have id2: "policy_retention_get_hypertable_id example_ext (retention_config 2) = Inr 2"
    and id1: "policy_retention_get_hypertable_id example_ext (retention_config 1) = Inr 1"
    by (simp_all add: example_ext_def field_defs retention_config_def)
  have relid2: "ts_hypertable_id_to_relid 2 (db example_world) = 5002"
    and relid1: "ts_hypertable_id_to_relid 1 (db example_world) = 5001"
    by (simp_all add: lookup_defs example_defs)
  have ht2: "ts_hypertable_cache_get_cache_and_entry
      (ts_hypertable_id_to_relid 2 (db example_world)) (db example_world) = Inr ?ht2"
    and ht1: "ts_hypertable_cache_get_cache_and_entry
      (ts_hypertable_id_to_relid 1 (db example_world)) (db example_world) = Inr ?ht1"
    by (simp_all add: lookup_defs example_defs)
  have ok2: "fst (policy_retention_execute example_ext 1000 (retention_config 2) example_world)
      = Inr True"
    and ok1: "fst (policy_retention_execute example_ext 1000 (retention_config 1) example_world)
      = Inr True"
    by (simp_all add: retention_on_materialization retention_on_hypertable)
  have view: "ts_continuous_agg_find_by_mat_hypertable_id 2 (db example_world) =
      Some \<lparr>mat_hypertable_id = 2, raw_hypertable_id = 1,
            user_view_schema = ''public'', user_view_name = ''my_view''\<rparr>"
    and plain: "ts_continuous_agg_find_by_mat_hypertable_id 1 (db example_world) = None"
    by (simp_all add: lookup_defs example_defs)
  have nsp: "get_namespace_oid ''public'' (db example_world) = Inr 2200"
    and rel: "get_relname_relid ''my_view'' 2200 (db example_world) = 7001"
    by (simp_all add: lookup_defs example_defs)
  have a2: "\<exists>bnd typ. storage_actions (db (snd (policy_retention_execute example_ext 1000
      (retention_config 2) example_world))) = [DropChunks 7001 bnd typ]"
    using C7_retention_target [OF id2 ht2 ok2] view nsp rel
    by (simp add: example_defs)
  have a1: "\<exists>bnd typ. storage_actions (db (snd (policy_retention_execute example_ext 1000
      (retention_config 1) example_world))) = [DropChunks 5001 bnd typ]"
    using C7_retention_target [OF id1 ht1 ok1] plain
    by (simp add: example_defs)
  show ?thesis
    using a1 a2 relid1 relid2
    by (simp add: retention_on_materialization retention_on_hypertable)
qed









subsection \<open>Running the compression and reorder policies\<close>

lemma chunkid_to_compress_eligible:
  "ts_dimension_slice_get_chunkid_to_compress dimension_id InvalidStrategy v
       BTLessStrategyNumber bnd d =
     (case find (eligible_for_compression dimension_id bnd) (chunks d) of
        None \<Rightarrow> INVALID_CHUNK_ID
      | Some c \<Rightarrow> chunk_id c)"
proof -
  have "(\<lambda>c. slice_dimension_id c = dimension_id
            \<and> strategy_holds InvalidStrategy (range_start c) v
            \<and> strategy_holds BTLessStrategyNumber (range_end c) bnd
            \<and> \<not> compressed c \<and> \<not> dropped c) = eligible_for_compression dimension_id bnd"
    by (rule ext) (simp add: eligible_for_compression_def)
  then show ?thesis
    by (simp add: ts_dimension_slice_get_chunkid_to_compress_def)
qed

lemma get_chunk_to_compress_eligible:
  assumes "get_window_boundary ext dim cfg (policy_compression_get_compress_after_int ext)
             (policy_compression_get_compress_after_interval ext) d = Inr bnd"
  shows "get_chunk_to_compress ext dim cfg d =
     Inr (case find (eligible_for_compression (dim_id dim)
                      (ts_time_value_to_internal ext bnd (ts_dimension_get_partition_type dim)))
                 (chunks d) of
            None \<Rightarrow> INVALID_CHUNK_ID
          | Some c \<Rightarrow> chunk_id c)"
  using assms
  by (simp add: get_chunk_to_compress_def ebind_def Let_def chunkid_to_compress_eligible)

lemma find_after_compress:
  "find (eligible_for_compression dimension_id bnd)
        (map (\<lambda>c'. if chunk_id c' = cid then c'\<lparr>compressed := True\<rparr> else c') xs) =
   find (\<lambda>c'. chunk_id c' \<noteq> cid \<and> eligible_for_compression dimension_id bnd c') xs"
  by (induction xs) (simp_all add: eligible_for_compression_def)

lemma compress_wrapper_by_id:
  "chunk_id a = chunk_id b \<Longrightarrow> tsl_compress_chunk_wrapper a = tsl_compress_chunk_wrapper b"
  by (simp add: tsl_compress_chunk_wrapper_def)

lemma chunk_get_by_id_member:
  assumes "c \<in> set (chunks d)"
  shows "\<exists>c0. ts_chunk_get_by_id (chunk_id c) flag d = Inr (Some c0) \<and> chunk_id c0 = chunk_id c"
proof (cases "find (\<lambda>x. chunk_id x = chunk_id c) (chunks d)")
  case None
  then show ?thesis using assms by (auto simp: find_None_iff)
next
  case (Some c0)
  then have "chunk_id c0 = chunk_id c" by (auto simp: find_Some_iff)
  with Some show ?thesis by (simp add: ts_chunk_get_by_id_def)
qed

lemmas compression_eval = policy_compression_read_and_validate_config_def
  get_chunk_to_compress_def get_window_boundary_def
  ts_dimension_slice_get_chunkid_to_compress_def INVALID_CHUNK_ID_def
  lookup_defs field_defs compression_config_def example_defs job_defs ebind_def Let_def

text \<open>
  Claim C6. Let a compression policy run on a valid config, let the boundary be
  \<open>B\<close> before and after the compression, let \<open>c\<close> be the first eligible chunk
  (so that the run compresses \<open>c\<close>), and let no chunk have the invalid id.
  Then the run succeeds and compresses \<open>c\<close> only. If another eligible chunk
  remains (a chunk other than \<open>c\<close>, on the dimension, whose range ends strictly
  before \<open>B\<close>, not compressed, not dropped), the fast restart fires: the job's
  \<open>next_start\<close> becomes its \<open>last_start\<close> (for a job with no JobStat row, a row
  is created with \<open>next_start\<close> the transaction's start time). If none remains,
  the job statistics are as they were.
\<close>

theorem C6_compression_fast_restart:
  assumes valid: "policy_compression_read_and_validate_config ext cfg (db w) = Inr pd"
    and dim: "hyperspace_get_open_dimension (space (compression_hypertable pd)) 0 = Some dim"
    and b1: "get_window_boundary ext dim cfg (policy_compression_get_compress_after_int ext)
               (policy_compression_get_compress_after_interval ext) (db w) = Inr bnd"
    and B: "B = ts_time_value_to_internal ext bnd (ts_dimension_get_partition_type dim)"
    and first: "find (eligible_for_compression (dim_id dim) B) (chunks (db w)) = Some c"
    and ids: "\<forall>c' \<in> set (chunks (db w)). chunk_id c' \<noteq> INVALID_CHUNK_ID"
    and b2: "get_window_boundary ext dim cfg (policy_compression_get_compress_after_int ext)
               (policy_compression_get_compress_after_interval ext)
               (db (snd (tsl_compress_chunk_wrapper c w))) = Inr bnd"
  shows "fst (policy_compression_execute ext job_id cfg w) = Inr True \<and>
         storage_actions (db (snd (policy_compression_execute ext job_id cfg w))) =
           storage_actions (db w) @ [CompressChunk (chunk_id c)] \<and>
         bgw_job_stat (snd (policy_compression_execute ext job_id cfg w)) =
           (if \<exists>c' \<in> set (chunks (db w)).
                 chunk_id c' \<noteq> chunk_id c \<and> eligible_for_compression (dim_id dim) B c'
            then (bgw_job_stat w)(job_id \<mapsto>
                   (case bgw_job_stat w job_id of
                      Some st \<Rightarrow> st\<lparr>next_start := last_start st\<rparr>
                    | None \<Rightarrow> \<lparr>last_start = DT_NOBEGIN, last_finish = DT_NOBEGIN,
                               next_start = GetCurrentTransactionStartTimestamp w\<rparr>))
            else bgw_job_stat w)"
proof -
  let ?rest = "\<lambda>c'. chunk_id c' \<noteq> chunk_id c \<and> eligible_for_compression (dim_id dim) B c'"
  have mem: "c \<in> set (chunks (db w))"
    using first by (auto simp: find_Some_iff)
  have nz: "chunk_id c \<noteq> INVALID_CHUNK_ID"
    using ids mem by simp
  have q1: "get_chunk_to_compress ext dim cfg (db w) = Inr (chunk_id c)"
    using get_chunk_to_compress_eligible [OF b1] first B by simp
  obtain c0 where get: "ts_chunk_get_by_id (chunk_id c) True (db w) = Inr (Some c0)"
    and same: "chunk_id c0 = chunk_id c"
    using chunk_get_by_id_member [OF mem] by blast
  have wrap: "tsl_compress_chunk_wrapper c0 = tsl_compress_chunk_wrapper c"
    using compress_wrapper_by_id [OF same] .
  define w1 where "w1 = snd (tsl_compress_chunk_wrapper c w)"
  define w2 where "w2 = w1\<lparr>server_log := server_log w1 @
      [(LOG, (''completed compressing chunk %s.%s'',
              [S (chunk_schema_name c0), S (chunk_table_name c0)]))]\<rparr>"
  have w1_chunks: "chunks (db w1) =
      map (\<lambda>c'. if chunk_id c' = chunk_id c then c'\<lparr>compressed := True\<rparr> else c')
          (chunks (db w))"
    and w1_actions: "storage_actions (db w1) = storage_actions (db w) @ [CompressChunk (chunk_id c)]"
    and w1_stat: "bgw_job_stat w1 = bgw_job_stat w"
    and w1_now: "xact_start_timestamp (db w1) = xact_start_timestamp (db w)"
    and w1_fst: "tsl_compress_chunk_wrapper c w = (Inr (), w1)"
    by (simp_all add: w1_def tsl_compress_chunk_wrapper_def)
  have db2: "db w2 = db w1" and stat2: "bgw_job_stat w2 = bgw_job_stat w"
    by (simp_all add: w2_def w1_stat)
  have q2: "get_chunk_to_compress ext dim cfg (db w2) =
      Inr (case find ?rest (chunks (db w)) of None \<Rightarrow> INVALID_CHUNK_ID | Some c' \<Rightarrow> chunk_id c')"
    using get_chunk_to_compress_eligible [of ext dim cfg "db w1" bnd] b2
    by (simp add: db2 w1_def [symmetric] w1_chunks find_after_compress B)
  have exec: "policy_compression_execute ext job_id cfg w =
      pg_bind (pg_read (get_chunk_to_compress ext dim cfg)) (\<lambda>chunkid2.
      pg_then (pg_when (chunkid2 \<noteq> INVALID_CHUNK_ID)
                 (enable_fast_restart job_id ''compression''))
     (pg_then (elog DEBUG1 (''job %d completed compressing chunk'', [D job_id]))
              (pg_return True))) w2"
    using valid dim q1 nz get w1_fst
    by (simp add: policy_compression_execute_def pg_bind_def pg_then_def pg_read_def
        pg_when_def pg_return_def elog_def wrap w2_def)
  show ?thesis
  proof (cases "find ?rest (chunks (db w))")
    case None
    then have no: "\<not> (\<exists>c' \<in> set (chunks (db w)). ?rest c')"
      by (simp add: find_None_iff)
    show ?thesis
      unfolding exec using q2 None no
      by (auto simp: pg_bind_def pg_then_def pg_read_def pg_when_def pg_return_def elog_def
          stat2 db2 w1_actions)
  next
    case (Some c')
    then have c': "c' \<in> set (chunks (db w))" "?rest c'"
      by (auto simp: find_Some_iff)
    then have yes: "\<exists>c' \<in> set (chunks (db w)). ?rest c'"
      by blast
    have nz': "chunk_id c' \<noteq> INVALID_CHUNK_ID"
      using ids c'(1) by simp
    have fr: "enable_fast_restart job_id ''compression'' w2 =
        (Inr (), w2\<lparr>bgw_job_stat := (bgw_job_stat w)(job_id \<mapsto>
            (case bgw_job_stat w job_id of
               Some st \<Rightarrow> st\<lparr>next_start := last_start st\<rparr>
             | None \<Rightarrow> \<lparr>last_start = DT_NOBEGIN, last_finish = DT_NOBEGIN,
                        next_start = GetCurrentTransactionStartTimestamp w\<rparr>)),
          server_log := server_log w2 @
            [(DEBUG1, (''the %s job is scheduled to run again immediately'',
                       [S ''compression'']))]\<rparr>)"
      by (cases "bgw_job_stat w job_id")
         (simp_all add: enable_fast_restart_found enable_fast_restart_missing stat2 db2 w1_now
            GetCurrentTransactionStartTimestamp_def)
    show ?thesis
      unfolding exec using q2 Some yes nz'
      by (auto simp: pg_bind_def pg_then_def pg_read_def pg_when_def pg_return_def elog_def
          fr db2 w1_actions)
  qed
qed

text \<open>
  Hypertable 1 has chunks ending at 100, 200 and 1000, and job 1000 started last
  at 700. With the boundary at 300 the run compresses chunk 1, chunk 2 remains
  and \<open>next_start\<close> becomes 700; with the boundary at 150 the run compresses
  chunk 1, none remains and the job statistics are untouched.
\<close>

theorem C6_compression_fast_restart_witness:
  "bgw_job_stat admin_world 1000 =
     Some \<lparr>last_start = 700, last_finish = 800, next_start = 4400\<rparr> \<and>
   storage_actions (db (snd (policy_compression_execute example_ext 1000
      (compression_config 700) admin_world))) = [CompressChunk 1] \<and>
   bgw_job_stat (snd (policy_compression_execute example_ext 1000
      (compression_config 700) admin_world)) 1000 =
     Some \<lparr>last_start = 700, last_finish = 800, next_start = 700\<rparr> \<and>
   storage_actions (db (snd (policy_compression_execute example_ext 1000
      (compression_config 850) admin_world))) = [CompressChunk 1] \<and>
   bgw_job_stat (snd (policy_compression_execute example_ext 1000
      (compression_config 850) admin_world)) = bgw_job_stat admin_world"
proof -
  let ?ht = "\<lparr>ht_id = 1, schema_name = ''public'', table_name = ''conditions'',
        main_table_relid = 5001,
        space = [\<lparr>dim_id = 1, dim_type = DIMENSION_TYPE_OPEN,
                  partition_type = TIMESTAMPTZOID, integer_now_func = 0\<rparr>]\<rparr>"
  let ?dim = "\<lparr>dim_id = 1, dim_type = DIMENSION_TYPE_OPEN, partition_type = TIMESTAMPTZOID,
        integer_now_func = 0\<rparr>"
  let ?c1 = "\<lparr>chunk_id = 1, chunk_schema_name = ''_timescaledb_internal'',
         chunk_table_name = ''_hyper_1_1_chunk'', table_id = 8001,
         slice_dimension_id = 1, range_start = 0, range_end = 100,
         compressed = False, dropped = False\<rparr>"
  have valid: "\<And>a. policy_compression_read_and_validate_config example_ext
      (compression_config a) (db admin_world) = Inr \<lparr>compression_hypertable = ?ht\<rparr>"
    by (simp add: compression_eval)
  have dim: "hyperspace_get_open_dimension
      (space (compression_hypertable \<lparr>compression_hypertable = ?ht\<rparr>)) 0 = Some ?dim"
    by (simp add: lookup_defs)
  have b1: "\<And>a. get_window_boundary example_ext ?dim (compression_config a)
      (policy_compression_get_compress_after_int example_ext)
      (policy_compression_get_compress_after_interval example_ext) (db admin_world)
      = Inr (1000 - a)"
    by (simp add: compression_eval)
  have b2: "\<And>a. get_window_boundary example_ext ?dim (compression_config a)
      (policy_compression_get_compress_after_int example_ext)
      (policy_compression_get_compress_after_interval example_ext)
      (db (snd (tsl_compress_chunk_wrapper ?c1 admin_world))) = Inr (1000 - a)"
    by (simp add: compression_eval tsl_compress_chunk_wrapper_def)
  have B: "\<And>a. 1000 - a = ts_time_value_to_internal example_ext (1000 - a)
      (ts_dimension_get_partition_type ?dim)"
    by (simp add: example_ext_def)
  have first: "find (eligible_for_compression (dim_id ?dim) (1000 - 700))
      (chunks (db admin_world)) = Some ?c1"
    "find (eligible_for_compression (dim_id ?dim) (1000 - 850))
      (chunks (db admin_world)) = Some ?c1"
    by (simp_all add: eligible_for_compression_def example_defs job_defs)
  have ids: "\<forall>c' \<in> set (chunks (db admin_world)). chunk_id c' \<noteq> INVALID_CHUNK_ID"
    by (simp add: example_defs job_defs INVALID_CHUNK_ID_def)
  have stat: "bgw_job_stat admin_world 1000 =
     Some \<lparr>last_start = 700, last_finish = 800, next_start = 4400\<rparr>"
    by (simp add: admin_world_def)
  have more: "\<exists>c' \<in> set (chunks (db admin_world)). chunk_id c' \<noteq> chunk_id ?c1 \<and>
      eligible_for_compression (dim_id ?dim) (1000 - 700) c'"
    by (simp add: eligible_for_compression_def example_defs job_defs)
  have none: "\<not> (\<exists>c' \<in> set (chunks (db admin_world)). chunk_id c' \<noteq> chunk_id ?c1 \<and>
      eligible_for_compression (dim_id ?dim) (1000 - 850) c')"
    by (simp add: eligible_for_compression_def example_defs job_defs)
  have actions: "storage_actions (db admin_world) = []"
    by (simp add: example_defs job_defs)
  show ?thesis
    using C6_compression_fast_restart [OF valid dim b1 B first(1) ids b2, of 1000]
          C6_compression_fast_restart [OF valid dim b1 B first(2) ids b2, of 1000]
          stat more none actions
    by auto
qed


text \<open>
  Claim C8. A reorder policy run on a valid config that finds no chunk to reorder
  returns success and only writes a NOTICE to the log. A compression policy run
  on a valid config that finds no chunk to compress returns success and only
  writes to the log: the NOTICE and the closing DEBUG1 line. Neither raises,
  and neither changes the database, the jobs or the job statistics.
\<close>

theorem C8_no_eligible_chunk:
  "(policy_reorder_read_and_validate_config ext cfg_r (db w_r) = Inr pol \<and>
    get_chunk_id_to_reorder ext job_r (reorder_hypertable pol) (db w_r) = Inr (- 1) \<longrightarrow>
    policy_reorder_execute ext job_r cfg_r w_r =
      (Inr True, w_r\<lparr>server_log := server_log w_r @
         [(NOTICE, (''no chunks need reordering for hypertable %s.%s'',
                    [S (schema_name (reorder_hypertable pol)),
                     S (table_name (reorder_hypertable pol))]))]\<rparr>)) \<and>
   (policy_compression_read_and_validate_config ext cfg_c (db w_c) = Inr pd \<and>
    hyperspace_get_open_dimension (space (compression_hypertable pd)) 0 = Some dim \<and>
    get_chunk_to_compress ext dim cfg_c (db w_c) = Inr INVALID_CHUNK_ID \<longrightarrow>
    policy_compression_execute ext job_c cfg_c w_c =
      (Inr True, w_c\<lparr>server_log := server_log w_c @
         [(NOTICE, (''no chunks for hypertable %s.%s that satisfy compress chunk policy'',
                    [S (schema_name (compression_hypertable pd)),
                     S (table_name (compression_hypertable pd))])),
          (DEBUG1, (''job %d completed compressing chunk'', [D job_c]))]\<rparr>))"
proof (intro conjI impI)
  assume "policy_reorder_read_and_validate_config ext cfg_r (db w_r) = Inr pol \<and>
    get_chunk_id_to_reorder ext job_r (reorder_hypertable pol) (db w_r) = Inr (- 1)"
  then show "policy_reorder_execute ext job_r cfg_r w_r =
      (Inr True, w_r\<lparr>server_log := server_log w_r @
         [(NOTICE, (''no chunks need reordering for hypertable %s.%s'',
                    [S (schema_name (reorder_hypertable pol)),
                     S (table_name (reorder_hypertable pol))]))]\<rparr>)"
    by (simp add: policy_reorder_execute_def pg_bind_def pg_then_def pg_read_def
        pg_return_def elog_def)
next
  assume "policy_compression_read_and_validate_config ext cfg_c (db w_c) = Inr pd \<and>
    hyperspace_get_open_dimension (space (compression_hypertable pd)) 0 = Some dim \<and>
    get_chunk_to_compress ext dim cfg_c (db w_c) = Inr INVALID_CHUNK_ID"
  then show "policy_compression_execute ext job_c cfg_c w_c =
      (Inr True, w_c\<lparr>server_log := server_log w_c @
         [(NOTICE, (''no chunks for hypertable %s.%s that satisfy compress chunk policy'',
                    [S (schema_name (compression_hypertable pd)),
                     S (table_name (compression_hypertable pd))])),
          (DEBUG1, (''job %d completed compressing chunk'', [D job_c]))]\<rparr>)"
    by (simp add: policy_compression_execute_def pg_bind_def pg_then_def pg_read_def
        pg_when_def pg_return_def elog_def)
qed

text \<open>
  The reorder policy on hypertable 1 when no slice is old enough, and the
  compression policy on it with the boundary at 0.
\<close>

theorem C8_no_eligible_chunk_witness:
  "get_chunk_id_to_reorder example_ext 1000
      \<lparr>ht_id = 1, schema_name = ''public'', table_name = ''conditions'',
        main_table_relid = 5001,
        space = [\<lparr>dim_id = 1, dim_type = DIMENSION_TYPE_OPEN,
                  partition_type = TIMESTAMPTZOID, integer_now_func = 0\<rparr>]\<rparr>
      (db admin_world) = Inr (- 1) \<and>
   policy_reorder_execute example_ext 1000 reorder_config admin_world =
     (Inr True, admin_world\<lparr>server_log :=
        [(NOTICE, (''no chunks need reordering for hypertable %s.%s'',
                   [S ''public'', S ''conditions'']))]\<rparr>) \<and>
   get_chunk_to_compress example_ext
      \<lparr>dim_id = 1, dim_type = DIMENSION_TYPE_OPEN, partition_type = TIMESTAMPTZOID,
        integer_now_func = 0\<rparr>
      (compression_config 1000) (db admin_world) = Inr INVALID_CHUNK_ID \<and>
   policy_compression_execute example_ext 1000 (compression_config 1000) admin_world =
     (Inr True, admin_world\<lparr>server_log :=
        [(NOTICE, (''no chunks for hypertable %s.%s that satisfy compress chunk policy'',
                   [S ''public'', S ''conditions''])),
         (DEBUG1, (''job %d completed compressing chunk'', [D 1000]))]\<rparr>)"
proof -
  let ?ht = "\<lparr>ht_id = 1, schema_name = ''public'', table_name = ''conditions'',
        main_table_relid = 5001,
        space = [\<lparr>dim_id = 1, dim_type = DIMENSION_TYPE_OPEN,
                  partition_type = TIMESTAMPTZOID, integer_now_func = 0\<rparr>]\<rparr>"
  let ?dim = "\<lparr>dim_id = 1, dim_type = DIMENSION_TYPE_OPEN, partition_type = TIMESTAMPTZOID,
        integer_now_func = 0\<rparr>"
  have rv: "policy_reorder_read_and_validate_config example_ext reorder_config (db admin_world)
      = Inr \<lparr>reorder_hypertable = ?ht, index_relid = 6001\<rparr>"
    by (simp add: policy_reorder_read_and_validate_config_def check_valid_index_def
        reorder_config_def lookup_defs field_defs example_defs job_defs ebind_def Let_def)
  have none_r: "get_chunk_id_to_reorder example_ext 1000 ?ht (db admin_world) = Inr (- 1)"
    by (simp add: get_chunk_id_to_reorder_def lookup_defs example_ext_def
        REORDER_SKIP_RECENT_DIM_SLICES_N_def)
  have cv: "policy_compression_read_and_validate_config example_ext (compression_config 1000)
      (db admin_world) = Inr \<lparr>compression_hypertable = ?ht\<rparr>"
    by (simp add: compression_eval)
  have cd: "hyperspace_get_open_dimension (space ?ht) 0 = Some ?dim"
    by (simp add: lookup_defs)
  have none_c: "get_chunk_to_compress example_ext ?dim (compression_config 1000)
      (db admin_world) = Inr INVALID_CHUNK_ID"
    by (simp add: compression_eval ts_dimension_get_partition_type_def)
  show ?thesis
    using C8_no_eligible_chunk [of example_ext reorder_config admin_world
        "\<lparr>reorder_hypertable = ?ht, index_relid = 6001\<rparr>" 1000
        "compression_config 1000" admin_world "\<lparr>compression_hypertable = ?ht\<rparr>" ?dim 1000]
      rv none_r cv cd none_c
    by (simp add: admin_world_def example_world_def)
qed

end
